theory Spec2Isabelle
  imports Main "HOL-Library.Log_Nat"
begin

section \<open>Text: Python strings as UTF-8 encoded character lists\<close>

text \<open>
  A Python \<^verbatim>\<open>str\<close> is modelled by the list of the bytes of its UTF-8 encoding.
  ASCII characters keep their Python meaning; every byte outside ASCII is neither a
  letter, a digit, white space nor a word character, and is left alone by
  \<^verbatim>\<open>lower()\<close>, which is what Python does for the rupee sign U+20B9 and for emoji.
  Substring tests on UTF-8 encodings agree with substring tests on code points.
  Letters, digits and white space outside ASCII are outside the model, and so is the
  interpreter's limit on the number of digits that \<^verbatim>\<open>int()\<close> converts.
\<close>

definition upper_letters :: string where
  "upper_letters = ''ABCDEFGHIJKLMNOPQRSTUVWXYZ''"

definition lower_letters :: string where
  "lower_letters = ''abcdefghijklmnopqrstuvwxyz''"

definition digits :: string where
  "digits = ''0123456789''"

definition is_digit :: "char \<Rightarrow> bool" where
  "is_digit c = (c \<in> set digits)"

definition is_alpha :: "char \<Rightarrow> bool" where
  "is_alpha c = (c \<in> set upper_letters \<or> c \<in> set lower_letters)"

definition is_upper :: "char \<Rightarrow> bool" where
  "is_upper c = (c \<in> set upper_letters)"

text \<open>\<^verbatim>\<open>str.isspace\<close> and the regular expression class \<^verbatim>\<open>\s\<close> on ASCII: tab, line feed,
  vertical tab, form feed, carriage return, the four separators 0x1C to 0x1F, space.\<close>

definition is_space :: "char \<Rightarrow> bool" where
  "is_space c = (c \<in> set [CHR 0x09, CHR 0x0A, CHR 0x0B, CHR 0x0C, CHR 0x0D,
                            CHR 0x1C, CHR 0x1D, CHR 0x1E, CHR 0x1F, CHR 0x20])"

text \<open>The class \<^verbatim>\<open>\w\<close>: letters, digits and the underscore.\<close>

definition is_word :: "char \<Rightarrow> bool" where
  "is_word c = (is_alpha c \<or> is_digit c \<or> c = CHR ''_'')"

definition to_lower :: "char \<Rightarrow> char" where
  "to_lower c = (case map_of (zip upper_letters lower_letters) c of Some d \<Rightarrow> d | None \<Rightarrow> c)"

definition to_upper :: "char \<Rightarrow> char" where
  "to_upper c = (case map_of (zip lower_letters upper_letters) c of Some d \<Rightarrow> d | None \<Rightarrow> c)"

text \<open>\<^verbatim>\<open>s.lower()\<close>\<close>

definition lower :: "string \<Rightarrow> string" where
  "lower s = map to_lower s"

text \<open>\<^verbatim>\<open>s.strip()\<close>\<close>

definition strip :: "string \<Rightarrow> string" where
  "strip s = rev (dropWhile is_space (rev (dropWhile is_space s)))"

text \<open>\<^verbatim>\<open>s.isdigit()\<close> and \<^verbatim>\<open>s.isalpha()\<close>: false on the empty string.\<close>

definition isdigit :: "string \<Rightarrow> bool" where
  "isdigit s = (s \<noteq> [] \<and> list_all is_digit s)"

definition isalpha :: "string \<Rightarrow> bool" where
  "isalpha s = (s \<noteq> [] \<and> list_all is_alpha s)"

text \<open>\<^verbatim>\<open>len(s)\<close> counts code points: the bytes that are not UTF-8 continuation bytes.\<close>

definition is_continuation :: "char \<Rightarrow> bool" where
  "is_continuation c = (128 \<le> (of_char c :: nat) \<and> (of_char c :: nat) < 192)"

definition len :: "string \<Rightarrow> nat" where
  "len s = length (filter (\<lambda>c. \<not> is_continuation c) s)"

text \<open>\<^verbatim>\<open>s.startswith(p)\<close> and the substring test \<^verbatim>\<open>sub in s\<close>.\<close>

fun startswith :: "string \<Rightarrow> string \<Rightarrow> bool" where
  "startswith s [] = True"
| "startswith [] (p # ps) = False"
| "startswith (c # cs) (p # ps) = (c = p \<and> startswith cs ps)"

fun str_in :: "string \<Rightarrow> string \<Rightarrow> bool" where
  "str_in sub [] = (sub = [])"
| "str_in sub (c # cs) = (startswith (c # cs) sub \<or> str_in sub cs)"

text \<open>\<^verbatim>\<open>s.split()\<close>: the maximal runs of characters that are not white space.\<close>

fun split_ws :: "string \<Rightarrow> string \<Rightarrow> string list" where
  "split_ws cur [] = (if cur = [] then [] else [cur])"
| "split_ws cur (c # cs) =
     (if is_space c then (if cur = [] then split_ws [] cs else cur # split_ws [] cs)
      else split_ws (cur @ [c]) cs)"

definition split :: "string \<Rightarrow> string list" where
  "split s = split_ws [] s"

text \<open>\<^verbatim>\<open>int(s)\<close> on a string of decimal digits.\<close>

definition digit_val :: "char \<Rightarrow> int" where
  "digit_val c = int (of_char c) - 48"

definition int_of :: "string \<Rightarrow> int" where
  "int_of s = foldl (\<lambda>a c. 10 * a + digit_val c) 0 s"

text \<open>\<^verbatim>\<open>s.title()\<close>: every letter that follows a non-letter is upper case, every other
  letter lower case.\<close>

fun title_from :: "bool \<Rightarrow> string \<Rightarrow> string" where
  "title_from prev [] = []"
| "title_from prev (c # cs) =
     (if is_alpha c then (if prev then to_lower c else to_upper c) # title_from True cs
      else c # title_from False cs)"

definition title :: "string \<Rightarrow> string" where
  "title s = title_from False s"

section \<open>Regular expressions with backtracking\<close>

text \<open>
  The patterns of the source use literals, character classes, greedy bounded and
  unbounded repetition of a single character class, ordered alternation, sequencing,
  capturing groups and the word boundary. The matcher returns every way a pattern can
  match at a position, in the order in which a backtracking engine tries them; the
  first is the match that \<^verbatim>\<open>re\<close> reports.
\<close>

datatype cclass = Digit | WordChar | Space | OneOf string

fun in_class :: "cclass \<Rightarrow> char \<Rightarrow> bool" where
  "in_class Digit c = is_digit c"
| "in_class WordChar c = is_word c"
| "in_class Space c = is_space c"
| "in_class (OneOf cs) c = (c \<in> set cs)"

datatype regex =
    Lit string
  | Rep cclass nat "nat option"
  | Alt regex regex
  | Seq regex regex
  | Grp nat regex
  | Boundary

text \<open>The captured groups of a match: group number, start and end of the group.\<close>

type_synonym captures = "(nat \<times> nat \<times> nat) list"

text \<open>\<^verbatim>\<open>\b\<close> holds at \<open>i\<close> when exactly one of the characters before and after is a word
  character.\<close>

definition word_at :: "string \<Rightarrow> nat \<Rightarrow> bool" where
  "word_at s i = (i < length s \<and> is_word (s ! i))"

definition at_boundary :: "string \<Rightarrow> nat \<Rightarrow> bool" where
  "at_boundary s i = ((0 < i \<and> word_at s (i - 1)) \<noteq> word_at s i)"

fun rmatch :: "regex \<Rightarrow> string \<Rightarrow> nat \<Rightarrow> captures \<Rightarrow> (nat \<times> captures) list" where
  "rmatch (Lit l) s i g = (if startswith (drop i s) l then [(i + length l, g)] else [])"
| "rmatch (Rep c lo hi) s i g =
     (let n = length (takeWhile (in_class c) (drop i s));
          m = (case hi of None \<Rightarrow> n | Some h \<Rightarrow> min n h)
      in map (\<lambda>k. (i + k, g)) (rev [lo..<Suc m]))"
| "rmatch (Alt a b) s i g = rmatch a s i g @ rmatch b s i g"
| "rmatch (Seq a b) s i g = concat (map (\<lambda>(j, g'). rmatch b s j g') (rmatch a s i g))"
| "rmatch (Grp k r) s i g =
     map (\<lambda>(j, g'). (j, (k, i, j) # g')) (rmatch r s i g)"
| "rmatch Boundary s i g = (if at_boundary s i then [(i, g)] else [])"

text \<open>A match object: start, end and the captured groups.\<close>

record rmatch_obj =
  m_start :: nat
  m_end :: nat
  m_groups :: captures

definition match_at :: "regex \<Rightarrow> string \<Rightarrow> nat \<Rightarrow> rmatch_obj option" where
  "match_at r s i =
     (case rmatch r s i [] of
        [] \<Rightarrow> None
      | (j, g) # _ \<Rightarrow> Some \<lparr>m_start = i, m_end = j, m_groups = g\<rparr>)"

text \<open>The leftmost match at or after the first of the given positions.\<close>

fun first_match :: "regex \<Rightarrow> string \<Rightarrow> nat list \<Rightarrow> rmatch_obj option" where
  "first_match r s [] = None"
| "first_match r s (i # is) =
     (case match_at r s i of Some m \<Rightarrow> Some m | None \<Rightarrow> first_match r s is)"

definition search_from :: "regex \<Rightarrow> string \<Rightarrow> nat \<Rightarrow> rmatch_obj option" where
  "search_from r s p = first_match r s [p..<Suc (length s)]"

text \<open>\<^verbatim>\<open>re.search(r, s)\<close>\<close>

definition search :: "regex \<Rightarrow> string \<Rightarrow> rmatch_obj option" where
  "search r s = search_from r s 0"

text \<open>\<^verbatim>\<open>s[i:j]\<close>, and \<^verbatim>\<open>match.group(0)\<close> and \<^verbatim>\<open>match.group(k)\<close> of a match in \<open>s\<close>.\<close>

definition slice :: "string \<Rightarrow> nat \<Rightarrow> nat \<Rightarrow> string" where
  "slice s i j = take (j - i) (drop i s)"

definition group0 :: "string \<Rightarrow> rmatch_obj \<Rightarrow> string" where
  "group0 s m = slice s (m_start m) (m_end m)"

definition group :: "string \<Rightarrow> rmatch_obj \<Rightarrow> nat \<Rightarrow> string option" where
  "group s m k = map_option (\<lambda>(i, j). slice s i j) (map_of (m_groups m) k)"

lemma first_match_start: "first_match r s ps = Some m \<Longrightarrow> m_start m \<in> set ps"
  by (induction ps) (auto simp: match_at_def split: option.splits list.splits)

lemma search_from_start:
  "search_from r s p = Some m \<Longrightarrow> p \<le> m_start m \<and> m_start m \<le> length s"
  by (auto simp: search_from_def dest!: first_match_start)

text \<open>\<^verbatim>\<open>re.finditer(r, s)\<close>: the matches from left to right, each search starting where the
  previous match ended (one character further after an empty match; no pattern of the
  source matches the empty string).\<close>

function finditer_from :: "regex \<Rightarrow> string \<Rightarrow> nat \<Rightarrow> rmatch_obj list" where
  "finditer_from r s p =
     (case search_from r s p of
        None \<Rightarrow> []
      | Some m \<Rightarrow> m # finditer_from r s (max (m_end m) (Suc (m_start m))))"
  by pat_completeness auto
termination
  by (relation "measure (\<lambda>(r, s, p). Suc (length s) - p)")
     (auto dest!: search_from_start)

definition finditer :: "regex \<Rightarrow> string \<Rightarrow> rmatch_obj list" where
  "finditer r s = finditer_from r s 0"

text \<open>\<^verbatim>\<open>re.findall(r, s)\<close> for a pattern with one group: the text of group 1 of every
  match.\<close>

definition findall1 :: "regex \<Rightarrow> string \<Rightarrow> string list" where
  "findall1 r s = map (\<lambda>m. case group s m 1 of Some t \<Rightarrow> t | None \<Rightarrow> []) (finditer r s)"

text \<open>\<^verbatim>\<open>re.sub(r, repl, s, flags=re.IGNORECASE)\<close> for a pattern of lower-case literals: the
  pattern is matched against the lower-cased text, the groups are read from the text
  itself, and every match is replaced by what \<open>repl\<close> makes of it.\<close>

fun sub_matches :: "(rmatch_obj \<Rightarrow> string) \<Rightarrow> string \<Rightarrow> nat \<Rightarrow> rmatch_obj list \<Rightarrow> string" where
  "sub_matches repl s p [] = drop p s"
| "sub_matches repl s p (m # ms) =
     slice s p (m_start m) @ repl m @ sub_matches repl s (m_end m) ms"

definition sub_ignorecase :: "regex \<Rightarrow> (string \<Rightarrow> rmatch_obj \<Rightarrow> string) \<Rightarrow> string \<Rightarrow> string" where
  "sub_ignorecase r repl s = sub_matches (repl s) s 0 (finditer r (lower s))"

text \<open>Pattern combinators: a sequence of patterns, an alternation of literals.\<close>

fun seqs :: "regex list \<Rightarrow> regex" where
  "seqs [] = Lit []"
| "seqs [r] = r"
| "seqs (r # rs) = Seq r (seqs rs)"

fun alts :: "regex list \<Rightarrow> regex" where
  "alts [] = Rep Digit 1 (Some 0)"
| "alts [r] = r"
| "alts (r # rs) = Alt r (alts rs)"

definition lits :: "string list \<Rightarrow> regex" where
  "lits ws = alts (map Lit ws)"

abbreviation star :: "cclass \<Rightarrow> regex" where "star c \<equiv> Rep c 0 None"
abbreviation plus :: "cclass \<Rightarrow> regex" where "plus c \<equiv> Rep c 1 None"
abbreviation opt :: "cclass \<Rightarrow> regex" where "opt c \<equiv> Rep c 0 (Some 1)"
abbreviation one :: "cclass \<Rightarrow> regex" where "one c \<equiv> Rep c 1 (Some 1)"
abbreviation between :: "cclass \<Rightarrow> nat \<Rightarrow> nat \<Rightarrow> regex" where
  "between c lo hi \<equiv> Rep c lo (Some hi)"

text \<open>\<^verbatim>\<open>len(match.groups())\<close>: the number of capturing groups of the pattern.\<close>

fun ngroups :: "regex \<Rightarrow> nat" where
  "ngroups (Alt a b) = ngroups a + ngroups b"
| "ngroups (Seq a b) = ngroups a + ngroups b"
| "ngroups (Grp k r) = Suc (ngroups r)"
| "ngroups r = 0"

section \<open>The field extractor: \<^verbatim>\<open>extract_customer_requirements\<close>\<close>

record ExtractedRequirements =
  quantity :: "int option"
  budget_per_piece :: "int option"
  timeline :: "string option"
  location :: "string option"
  preferences :: "string list"
  needs_confirmation :: bool

text \<open>\<^verbatim>\<open>re.findall(r'\b(\d+)\b', message)\<close>\<close>

definition number_token :: regex where
  "number_token = seqs [Boundary, Grp 1 (plus Digit), Boundary]"

definition all_numbers :: "string \<Rightarrow> string list" where
  "all_numbers message = findall1 number_token message"

subsection \<open>Step 1: timeline\<close>

definition timeline_map :: "(string \<times> string) list" where
  "timeline_map =
     [(''asap'', ''asap''), (''urgent'', ''asap''), (''immediately'', ''asap''),
      (''today'', ''today''), (''tomorrow'', ''tomorrow''),
      (''next week'', ''next_week''), (''this week'', ''this_week''),
      (''2 weeks'', ''two_weeks''), (''month'', ''one_month'')]"

text \<open>The first keyword of the table, in its order, that the text contains.\<close>

fun first_keyword :: "(string \<times> string) list \<Rightarrow> string \<Rightarrow> string option" where
  "first_keyword [] s = None"
| "first_keyword ((keyword, v) # kvs) s =
     (if str_in keyword s then Some v else first_keyword kvs s)"

definition months :: regex where
  "months = lits [''jan'', ''feb'', ''mar'', ''apr'', ''may'', ''jun'',
                  ''jul'', ''aug'', ''sep'', ''oct'', ''nov'', ''dec'']"

definition date_sep :: regex where
  "date_sep = one (OneOf ''/-.'')"

definition date_patterns :: "regex list" where
  "date_patterns =
     [seqs [Grp 1 months, star WordChar, star Space, Grp 2 (between Digit 1 2)],
      seqs [Grp 1 (between Digit 1 2), star Space, Grp 2 months],
      seqs [Grp 1 (between Digit 1 2), date_sep, Grp 2 (between Digit 1 2), date_sep,
            Grp 3 (between Digit 2 4)],
      seqs [Grp 1 (between Digit 1 2), date_sep, Grp 2 (between Digit 1 2)]]"

text \<open>The groups of a match that are digit strings.\<close>

definition digit_groups :: "regex \<Rightarrow> string \<Rightarrow> rmatch_obj \<Rightarrow> string list" where
  "digit_groups r s m =
     concat (map (\<lambda>k. case group s m k of
                         Some num \<Rightarrow> if num \<noteq> [] \<and> isdigit num then [num] else []
                       | None \<Rightarrow> [])
                 [1..<Suc (ngroups r)])"

text \<open>The body of the loop over the matches of one pattern: the matched text becomes the
  timeline, the digit groups are added to the date numbers.\<close>

definition date_match :: "regex \<Rightarrow> string \<Rightarrow> string option \<times> string set \<Rightarrow> rmatch_obj
                          \<Rightarrow> string option \<times> string set" where
  "date_match r s acc m = (Some (group0 s m), snd acc \<union> set (digit_groups r s m))"

definition date_pattern :: "string \<Rightarrow> string option \<times> string set \<Rightarrow> regex
                            \<Rightarrow> string option \<times> string set" where
  "date_pattern s acc r = foldl (date_match r s) acc (finditer r s)"

definition extract_timeline :: "string \<Rightarrow> string option \<times> string set" where
  "extract_timeline msg_lower =
     foldl (date_pattern msg_lower) (first_keyword timeline_map msg_lower, {}) date_patterns"

subsection \<open>Steps 2 and 3: quantity and budget by keyword\<close>

definition qty_patterns :: "regex list" where
  "qty_patterns =
     [seqs [Grp 1 (plus Digit), star Space,
            lits [''pieces'', ''pcs'', ''piece'', ''family'', ''families'', ''people'']],
      seqs [lits [''quantity'', ''qty'', ''need'', ''want'', ''for''],
            star Space, opt (OneOf '':''), star Space, Grp 1 (plus Digit)]]"

definition rupee :: string where
  "rupee = [CHR 0xE2, CHR 0x82, CHR 0xB9]"

definition budget_patterns :: "regex list" where
  "budget_patterns =
     [seqs [lits [''budget'', ''price''], star Space, opt (OneOf '':''), star Space,
            Grp 1 (plus Digit)],
      seqs [Grp 1 (plus Digit), star Space,
            alts [Lit ''rupees'', Lit ''rs'', Lit rupee,
                  seqs [Lit ''per'', star Space, Lit ''piece'']]],
      seqs [Lit rupee, star Space, Grp 1 (plus Digit)],
      seqs [Grp 1 (plus Digit), star Space, Lit ''rs'', Boundary],
      seqs [Lit ''under'', plus Space, Grp 1 (plus Digit)],
      seqs [Lit ''below'', plus Space, Grp 1 (plus Digit)],
      seqs [Lit ''within'', plus Space, Grp 1 (plus Digit)],
      seqs [Lit ''upto'', plus Space, Grp 1 (plus Digit)]]"

text \<open>The loop over a pattern list that stops at the first pattern that matches:
  \<^verbatim>\<open>int(match.group(1))\<close> of that match.\<close>

fun keyword_number :: "regex list \<Rightarrow> string \<Rightarrow> int option" where
  "keyword_number [] s = None"
| "keyword_number (r # rs) s =
     (case search r s of
        Some m \<Rightarrow> Some (int_of (case group s m 1 of Some t \<Rightarrow> t | None \<Rightarrow> []))
      | None \<Rightarrow> keyword_number rs s)"

subsection \<open>Step 4: position-based extraction\<close>

definition non_date_numbers :: "string list \<Rightarrow> string set \<Rightarrow> int list" where
  "non_date_numbers nums date_numbers = map int_of (filter (\<lambda>num. num \<notin> date_numbers) nums)"

definition position_based :: "int option \<Rightarrow> int option \<Rightarrow> int list \<Rightarrow> int option \<times> int option" where
  "position_based qty budget nd =
     (if qty = None \<or> budget = None then
        (if 2 \<le> length nd then
           (if qty = None then Some (nd ! 0) else qty,
            if budget = None then Some (nd ! 1) else budget)
         else if length nd = 1 then
           (if qty = None then (Some (nd ! 0), budget)
            else if budget = None then (qty, Some (nd ! 0))
            else (qty, budget))
         else (qty, budget))
      else (qty, budget))"

subsection \<open>Step 5: location\<close>

definition known_cities :: "string list" where
  "known_cities =
     [''chennai'', ''bangalore'', ''bengaluru'', ''coimbatore'', ''madurai'',
      ''hyderabad'', ''kochi'', ''mumbai'', ''delhi'', ''pune'', ''mysore'',
      ''trivandrum'', ''vijayawada'', ''erode'', ''salem'', ''tiruppur'',
      ''guntur'', ''vizag'', ''tirunelveli'', ''thanjavur'', ''trichy'',
      ''komarapalayam'', ''karur'', ''dindigul'', ''vellore'', ''hosur'']"

definition city_name :: "string \<Rightarrow> string" where
  "city_name city =
     (if city = ''bengaluru'' then ''Bangalore''
      else if city = ''tiruchirappalli'' then ''Trichy''
      else if city = ''visakhapatnam'' then ''Vizag''
      else title city)"

fun first_city :: "string list \<Rightarrow> string \<Rightarrow> string option" where
  "first_city [] s = None"
| "first_city (city # cs) s = (if str_in city s then Some (city_name city) else first_city cs s)"

definition skip_words :: "string list" where
  "skip_words = [''hello'', ''hi'', ''what'', ''when'', ''where'']"

fun first_place_word :: "string list \<Rightarrow> string option" where
  "first_place_word [] = None"
| "first_place_word (word # ws) =
     (let word_clean = strip word in
      if 3 < len word_clean \<and> is_upper (hd word_clean) \<and> isalpha word_clean
         \<and> lower word_clean \<notin> set skip_words
      then Some word_clean else first_place_word ws)"

definition extract_location :: "string \<Rightarrow> string \<Rightarrow> string option" where
  "extract_location message msg_lower =
     (case first_city known_cities msg_lower of
        Some loc \<Rightarrow> Some loc
      | None \<Rightarrow>
          (let ws = split (strip message) in
           if length ws \<le> 3 then first_place_word ws else None))"

subsection \<open>Step 6: preferences\<close>

definition extract_preferences :: "string \<Rightarrow> string list" where
  "extract_preferences msg_lower =
     (if str_in ''eco'' msg_lower \<or> str_in ''green'' msg_lower then [''eco_friendly''] else [])
     @ (if str_in ''traditional'' msg_lower \<or> str_in ''ethnic'' msg_lower
        then [''traditional''] else [])
     @ (if str_in ''modern'' msg_lower \<or> str_in ''contemporary'' msg_lower
        then [''modern''] else [])
     @ (if str_in ''premium'' msg_lower \<or> str_in ''luxury'' msg_lower
        then [''premium''] else [])"

subsection \<open>The extractor\<close>

definition extract_customer_requirements :: "string \<Rightarrow> ExtractedRequirements" where
  "extract_customer_requirements message =
     (let msg_lower = lower message;
          nums = all_numbers message;
          (found_timeline, date_numbers) = extract_timeline msg_lower;
          kw_qty = keyword_number qty_patterns msg_lower;
          qty_used_keyword = (kw_qty \<noteq> None);
          kw_budget = keyword_number budget_patterns msg_lower;
          budget_used_keyword = (kw_budget \<noteq> None);
          (qty, budget) = position_based kw_qty kw_budget (non_date_numbers nums date_numbers)
      in \<lparr>quantity = qty,
          budget_per_piece = budget,
          timeline = found_timeline,
          location = extract_location message msg_lower,
          preferences = extract_preferences msg_lower,
          needs_confirmation =
            (qty \<noteq> None \<and> budget \<noteq> None \<and> \<not> qty_used_keyword \<and> \<not> budget_used_keyword)\<rparr>)"

text \<open>The list \<^verbatim>\<open>non_date_numbers\<close> that step 4 builds for a message: the number tokens
  in textual order, without every token whose text is equal to a digit group of some
  date match. The test compares texts, not places: a token that stands outside every
  date match is dropped as well when a date match has a group with the same digits.\<close>

definition unclaimed_numbers :: "string \<Rightarrow> int list" where
  "unclaimed_numbers message =
     non_date_numbers (all_numbers message) (snd (extract_timeline (lower message)))"

text \<open>The texts of all date matches, in the order in which the loops of step 1 visit
  them, and the places of the number tokens and of the date matches (start and end).\<close>

definition number_spans :: "string \<Rightarrow> (nat \<times> nat) list" where
  "number_spans message = map (\<lambda>m. (m_start m, m_end m)) (finditer number_token message)"

definition date_spans :: "string \<Rightarrow> (nat \<times> nat) list" where
  "date_spans s = concat (map (\<lambda>r. map (\<lambda>m. (m_start m, m_end m)) (finditer r s)) date_patterns)"

definition date_matches :: "string \<Rightarrow> string list" where
  "date_matches s = concat (map (\<lambda>r. map (group0 s) (finditer r s)) date_patterns)"


section \<open>The timeline resolver: \<^verbatim>\<open>calculate_timeline_urgency\<close>\<close>

text \<open>
  Exceptions of the source are values of this type. \<open>LibraryError\<close> stands for whatever
  a call into a library outside the repository raises (the date parser, the
  language-model client, the database driver).
\<close>

datatype exn =
  ValueError | IndexError | TypeError | AttributeError | ZeroDivisionError | LibraryError

datatype urgency = Low | Medium | High | Critical

text \<open>
  The clock and the date library are outside the repository and are parameters of the
  model: the current time, adding days, \<^verbatim>\<open>dateutil\<close>'s fuzzy parser with its default
  date (\<open>None\<close> when it raises), \<^verbatim>\<open>replace(year=...)\<close> (\<open>None\<close> when the date does not
  exist in that year), comparison and \<^verbatim>\<open>(a - b).days\<close> (\<open>None\<close> when they raise, as for
  a parsed date that carries a time zone), and \<^verbatim>\<open>strftime("%d %B %Y")\<close>. The range
  limit of \<^verbatim>\<open>datetime\<close> is not modelled.
\<close>

record 'd calendar =
  now :: 'd
  plus_days :: "'d \<Rightarrow> int \<Rightarrow> 'd"
  parse_date :: "string \<Rightarrow> 'd \<Rightarrow> 'd option"
  next_year :: "'d \<Rightarrow> 'd \<Rightarrow> 'd option"
  earlier :: "'d \<Rightarrow> 'd \<Rightarrow> bool option"
  days_between :: "'d \<Rightarrow> 'd \<Rightarrow> int option"
  strftime :: "'d \<Rightarrow> string"

record timeline_result =
  delivery_date :: string
  days_remaining :: int
  urgency_level :: urgency
  is_rush_order :: bool

definition timeline_config :: "(string \<times> int \<times> urgency) list" where
  "timeline_config =
     [(''asap'', 1, Critical), (''today'', 0, Critical), (''tomorrow'', 1, High),
      (''this_week'', 5, Medium), (''next_week'', 7, Medium),
      (''two_weeks'', 14, Low), (''one_month'', 30, Low)]"

definition urgency_of_days :: "int \<Rightarrow> urgency" where
  "urgency_of_days d =
     (if d \<le> 2 then Critical else if d \<le> 7 then High else if d \<le> 14 then Medium else Low)"

text \<open>The body of the \<^verbatim>\<open>try\<close> block; \<open>None\<close> when one of its steps raises.\<close>

definition parse_actual_date :: "'d calendar \<Rightarrow> string \<Rightarrow> ('d \<times> int \<times> urgency) option" where
  "parse_actual_date cal text =
     (case parse_date cal text (now cal) of
        None \<Rightarrow> None
      | Some parsed \<Rightarrow>
          (case earlier cal parsed (now cal) of
             None \<Rightarrow> None
           | Some past \<Rightarrow>
               (case (if past then next_year cal parsed (now cal) else Some parsed) of
                  None \<Rightarrow> None
                | Some d \<Rightarrow>
                    (case days_between cal d (now cal) of
                       None \<Rightarrow> None
                     | Some n \<Rightarrow> Some (d, n, urgency_of_days n)))))"

definition timeline_answer :: "'d calendar \<Rightarrow> 'd \<Rightarrow> int \<Rightarrow> urgency \<Rightarrow> timeline_result" where
  "timeline_answer cal d n u =
     \<lparr>delivery_date = strftime cal d, days_remaining = n, urgency_level = u,
      is_rush_order = (u \<in> set [Critical, High])\<rparr>"

definition calculate_timeline_urgency :: "'d calendar \<Rightarrow> string \<Rightarrow> timeline_result" where
  "calculate_timeline_urgency cal text =
     (case map_of timeline_config (lower text) of
        Some (days, u) \<Rightarrow> timeline_answer cal (plus_days cal (now cal) days) days u
      | None \<Rightarrow>
          (case parse_actual_date cal text of
             Some (d, n, u) \<Rightarrow> timeline_answer cal d n u
           | None \<Rightarrow> timeline_answer cal (plus_days cal (now cal) 7) 7 Medium))"

section \<open>The product matcher: \<^verbatim>\<open>search_matching_products\<close>\<close>

subsection \<open>Floating-point arithmetic\<close>

text \<open>
  Python divides two integers into a binary64 number, and \<^verbatim>\<open>1 - x\<close> and \<^verbatim>\<open>x * 20\<close> are
  binary64 operations: each result is the exact result rounded to the nearest number
  with a 53-bit significand, ties to even. The model computes with rationals and rounds
  after every operation. Overflow and subnormal numbers are not modelled.
\<close>

definition pow2 :: "int \<Rightarrow> rat" where
  "pow2 e = (if 0 \<le> e then 2 ^ nat e else 1 / 2 ^ nat (- e))"

text \<open>The exponent \<open>e\<close> with \<open>2^e \<le> x < 2^(e+1)\<close>, for positive \<open>x\<close>.\<close>

definition ilog2 :: "rat \<Rightarrow> int" where
  "ilog2 x = (let (a, b) = quotient_of x; e = bitlen a - bitlen b
              in if pow2 e \<le> x then e else e - 1)"

definition round_half_even :: "rat \<Rightarrow> int" where
  "round_half_even x =
     (let f = \<lfloor>x\<rfloor>; d = x - of_int f
      in if d < 1 / 2 then f else if 1 / 2 < d then f + 1 else if even f then f else f + 1)"

definition fl :: "rat \<Rightarrow> rat" where
  "fl x = (if x = 0 then 0
           else let u = pow2 (ilog2 \<bar>x\<bar> - 52)
                in sgn x * of_int (round_half_even (\<bar>x\<bar> / u)) * u)"

text \<open>\<^verbatim>\<open>int(x)\<close> on a float: the fraction is cut off.\<close>

definition trunc :: "rat \<Rightarrow> int" where
  "trunc x = (if 0 \<le> x then \<lfloor>x\<rfloor> else \<lceil>x\<rceil>)"

text \<open>\<^verbatim>\<open>int((1 - applicable_price / budget_max) * 20)\<close>, for a budget that is not zero.\<close>

definition price_bonus :: "int \<Rightarrow> int \<Rightarrow> int" where
  "price_bonus price budget_max =
     trunc (fl (fl (1 - fl (of_int price / of_int budget_max)) * 20))"

subsection \<open>Rows, tiers and products\<close>

text \<open>A row of the query result: the product's columns and one pricing tier.\<close>

record row =
  r_id :: string
  r_name :: string
  r_category :: "string option"
  r_image_url :: "string option"
  r_min_order :: "int option"
  r_quantity_range :: string
  r_price_per_piece :: int

record tier =
  quantity_range :: string
  price_per_piece :: int

record catalog_product =
  p_id :: string
  p_name :: string
  p_category :: "string option"
  p_image_url :: "string option"
  p_min_order :: "int option"
  pricing :: "tier list"

record product =
  name :: string
  price :: int
  category :: "string option"
  min_order :: "int option"
  image_url :: "string option"
  relevance_score :: int

text \<open>The dictionary \<^verbatim>\<open>products_dict\<close>, in insertion order: a row opens an entry for a
  new product id and appends its tier to the entry of its product.\<close>

fun add_tier :: "string \<Rightarrow> tier \<Rightarrow> (string \<times> catalog_product) list \<Rightarrow> (string \<times> catalog_product) list" where
  "add_tier k t [] = []"
| "add_tier k t ((k', p) # ps) =
     (if k = k' then (k', p\<lparr>pricing := pricing p @ [t]\<rparr>) # ps else (k', p) # add_tier k t ps)"

definition add_row :: "(string \<times> catalog_product) list \<Rightarrow> row \<Rightarrow> (string \<times> catalog_product) list" where
  "add_row d r =
     (let d' = (if r_id r \<in> fst ` set d then d
                else d @ [(r_id r, \<lparr>p_id = r_id r, p_name = r_name r, p_category = r_category r,
                                     p_image_url = r_image_url r, p_min_order = r_min_order r,
                                     pricing = []\<rparr>)])
      in add_tier (r_id r) \<lparr>quantity_range = r_quantity_range r,
                            price_per_piece = r_price_per_piece r\<rparr> d')"

definition products_dict :: "row list \<Rightarrow> (string \<times> catalog_product) list" where
  "products_dict rows = foldl add_row [] rows"

subsection \<open>The price that applies to a quantity\<close>

text \<open>\<^verbatim>\<open>int(s)\<close> on any string: white space around, a sign, digits with single
  underscores between them; \<open>None\<close> is \<^verbatim>\<open>ValueError\<close>.\<close>

fun digits_ok :: "bool \<Rightarrow> string \<Rightarrow> bool" where
  "digits_ok after_digit [] = after_digit"
| "digits_ok after_digit (c # cs) =
     (if is_digit c then digits_ok True cs
      else c = CHR ''_'' \<and> after_digit \<and> digits_ok False cs)"

definition py_int :: "string \<Rightarrow> int option" where
  "py_int s =
     (let t = strip s;
          neg = (t \<noteq> [] \<and> hd t = CHR ''-'');
          body = (if t \<noteq> [] \<and> hd t \<in> set ''+-'' then tl t else t)
      in if digits_ok False body
         then Some ((if neg then - 1 else 1) * int_of (filter (\<lambda>c. c \<noteq> CHR ''_'') body))
         else None)"

text \<open>\<^verbatim>\<open>s.split(sep)[0]\<close> and \<^verbatim>\<open>s.split(sep)[1]\<close>, the latter for a text that contains the
  separator.\<close>

definition before_sep :: "char \<Rightarrow> string \<Rightarrow> string" where
  "before_sep sep s = takeWhile (\<lambda>c. c \<noteq> sep) s"

definition after_sep :: "char \<Rightarrow> string \<Rightarrow> string" where
  "after_sep sep s = before_sep sep (drop 1 (dropWhile (\<lambda>c. c \<noteq> sep) s))"

text \<open>The loop over the tiers of one product. An open range (\<open>50+\<close>) sets the price and
  goes on; a closed range (\<open>25-49\<close>) that holds the quantity sets the price and leaves
  the loop; a tier of neither form counts when its price is within the budget.\<close>

fun applicable_price_from :: "int \<Rightarrow> int \<Rightarrow> int option \<Rightarrow> tier list \<Rightarrow> exn + int option" where
  "applicable_price_from budget_max qty acc [] = Inr acc"
| "applicable_price_from budget_max qty acc (t # ts) =
     (if CHR ''+'' \<in> set (quantity_range t) then
        (case py_int (strip (before_sep CHR ''+'' (quantity_range t))) of
           None \<Rightarrow> Inl ValueError
         | Some min_qty \<Rightarrow>
             applicable_price_from budget_max qty
               (if min_qty \<le> qty then Some (price_per_piece t) else acc) ts)
      else if CHR ''-'' \<in> set (quantity_range t) then
        (case py_int (strip (before_sep CHR ''-'' (quantity_range t))) of
           None \<Rightarrow> Inl ValueError
         | Some min_qty \<Rightarrow>
             (case split (after_sep CHR ''-'' (quantity_range t)) of
                [] \<Rightarrow> Inl IndexError
              | w # _ \<Rightarrow>
                  (case py_int (strip w) of
                     None \<Rightarrow> Inl ValueError
                   | Some max_qty \<Rightarrow>
                       if min_qty \<le> qty \<and> qty \<le> max_qty then Inr (Some (price_per_piece t))
                       else applicable_price_from budget_max qty acc ts)))
      else applicable_price_from budget_max qty
             (if price_per_piece t \<le> budget_max then Some (price_per_piece t) else acc) ts)"

definition applicable_price :: "int \<Rightarrow> int \<Rightarrow> catalog_product \<Rightarrow> exn + int option" where
  "applicable_price budget_max qty p = applicable_price_from budget_max qty None (pricing p)"

subsection \<open>The relevance score\<close>

text \<open>The test \<^verbatim>\<open>"Premium" in product['category']\<close> raises \<^verbatim>\<open>TypeError\<close> on a product
  without category; the division raises on a budget of zero.\<close>

definition relevance :: "string list \<Rightarrow> int \<Rightarrow> string option \<Rightarrow> int \<Rightarrow> exn + int" where
  "relevance prefs budget_max cat applicable =
     (let eco = (if ''eco_friendly'' \<in> set prefs \<and> cat = Some ''Eco-Friendly'' then 30 else 0);
          trad = (if ''traditional'' \<in> set prefs
                     \<and> cat \<in> set [Some ''Traditional'', Some ''Premium Traditional'']
                  then 25 else 0)
      in if ''premium'' \<in> set prefs \<and> cat = None then Inl TypeError
         else let prem = (if ''premium'' \<in> set prefs \<and> str_in ''Premium'' (the cat)
                          then 20 else 0)
              in if budget_max = 0 then Inl ZeroDivisionError
                 else Inr (100 + eco + trad + prem + price_bonus applicable budget_max))"

text \<open>The loop over the products: one without applicable price, or with one above the
  budget, is skipped.\<close>

fun match_products :: "string list \<Rightarrow> int \<Rightarrow> int \<Rightarrow> catalog_product list \<Rightarrow> exn + product list" where
  "match_products prefs budget_max qty [] = Inr []"
| "match_products prefs budget_max qty (p # ps) =
     (case applicable_price budget_max qty p of
        Inl e \<Rightarrow> Inl e
      | Inr None \<Rightarrow> match_products prefs budget_max qty ps
      | Inr (Some a) \<Rightarrow>
          if budget_max < a then match_products prefs budget_max qty ps
          else (case relevance prefs budget_max (p_category p) a of
                  Inl e \<Rightarrow> Inl e
                | Inr score \<Rightarrow>
                    (case match_products prefs budget_max qty ps of
                       Inl e \<Rightarrow> Inl e
                     | Inr rest \<Rightarrow>
                         Inr (\<lparr>name = p_name p, price = a, category = p_category p,
                               min_order = p_min_order p, image_url = p_image_url p,
                               relevance_score = score\<rparr> # rest))))"

text \<open>
  The catalogue is a parameter: \<open>fetch qty\<close> is what the query for the products with
  \<^verbatim>\<open>min_order <= qty\<close> returns, or the exception of the database driver. The stable sort
  with \<^verbatim>\<open>reverse=True\<close> puts higher scores first and keeps the order of equal scores.
\<close>

definition search_matching_products ::
  "(int \<Rightarrow> exn + row list) \<Rightarrow> int \<Rightarrow> int \<Rightarrow> string list option \<Rightarrow> exn + product list" where
  "search_matching_products fetch budget_max qty wanted =
     (let prefs = (case wanted of None \<Rightarrow> [] | Some ps \<Rightarrow> ps) in
      case fetch qty of
        Inl e \<Rightarrow> Inl e
      | Inr rows \<Rightarrow>
          (case match_products prefs budget_max qty (map snd (products_dict rows)) of
             Inl e \<Rightarrow> Inl e
           | Inr found \<Rightarrow> Inr (sort_key (\<lambda>p. - relevance_score p) found)))"

text \<open>A small catalogue: one product with two tiers, one with a single tier.\<close>

definition sample_rows :: "row list" where
  "sample_rows =
     [\<lparr>r_id = ''p1'', r_name = ''Brass Lamp'', r_category = Some ''Traditional'',
       r_image_url = None, r_min_order = Some 10, r_quantity_range = ''10-49 pieces'',
       r_price_per_piece = 12\<rparr>,
      \<lparr>r_id = ''p1'', r_name = ''Brass Lamp'', r_category = Some ''Traditional'',
       r_image_url = None, r_min_order = Some 10, r_quantity_range = ''50+ pieces'',
       r_price_per_piece = 10\<rparr>,
      \<lparr>r_id = ''p2'', r_name = ''Jute Bag'', r_category = Some ''Eco-Friendly'',
       r_image_url = None, r_min_order = Some 10, r_quantity_range = ''50+ pieces'',
       r_price_per_piece = 45\<rparr>]"


section \<open>The conversation state\<close>

datatype message = HumanMessage string | AIMessage string

datatype stage =
    Greeting | Intent_classification | Requirement_extraction | Awaiting_confirmation
  | Validation | Product_search | Recommendation | Product_selection | Order_confirmation
  | Handoff

record CustomerIntent =
  intent_label :: string
  confidence :: rat
  entities_mentioned :: "string list"

record ValidationResult =
  is_valid :: bool
  issues :: "string list"
  suggestions :: "string list"
  v_delivery_date :: "string option"
  v_urgency_level :: urgency

text \<open>A key that has never been written is absent from the state dictionary; the code
  reads every key with \<^verbatim>\<open>get\<close>, so absent is \<open>None\<close>, and \<open>False\<close> for the two flags.\<close>

record BotState =
  messages :: "message list"
  user_id :: string
  requirements :: "ExtractedRequirements option"
  validation :: "ValidationResult option"
  recommended_products :: "product list option"
  selected_product :: "product option"
  current_stage :: "stage option"
  intent :: "CustomerIntent option"
  conversation_history_summary :: "string option"
  handoff_reason :: "string option"
  has_greeted :: bool
  needs_human_handoff :: bool
  error_count :: nat

text \<open>The state of a conversation that has not started.\<close>

definition new_conversation :: BotState where
  "new_conversation =
     \<lparr>messages = [], user_id = [], requirements = None, validation = None,
      recommended_products = None, selected_product = None, current_stage = None,
      intent = None, conversation_history_summary = None, handoff_reason = None,
      has_greeted = False, needs_human_handoff = False, error_count = 0\<rparr>"

text \<open>The external services: the reply of the language model to a message and the rows
  that the catalogue query returns for a quantity, each of which can raise, and the
  calendar.\<close>

record 'd services =
  llm :: "string \<Rightarrow> exn + string"
  fetch_rows :: "int \<Rightarrow> exn + row list"
  calendar_of :: "'d calendar"

text \<open>The content of the last human message.\<close>

definition user_messages :: "BotState \<Rightarrow> string list" where
  "user_messages s = concat (map (\<lambda>m. case m of HumanMessage c \<Rightarrow> [c] | AIMessage c \<Rightarrow> []) (messages s))"

section \<open>The nodes\<close>

subsection \<open>Greeting\<close>

definition smiling_face :: string where
  "smiling_face = [CHR 0xF0, CHR 0x9F, CHR 0x98, CHR 0x8A]"

definition folded_hands :: string where
  "folded_hands = [CHR 0xF0, CHR 0x9F, CHR 0x99, CHR 0x8F]"

definition greeting_msg :: string where
  "greeting_msg =
     ''Hello mam/sir! '' @ smiling_face @ ''\<newline>\<newline>''
     @ ''Could you please tell your return gift requirement:\<newline>\<newline>''
     @ ''1. Quantity\<newline>2. Budget per piece\<newline>3. When needed\<newline>4. Delivery location\<newline>\<newline>''
     @ ''Thank you!''"

definition greeting_node :: "BotState \<Rightarrow> BotState" where
  "greeting_node s =
     s\<lparr>messages := messages s @ [AIMessage greeting_msg],
       current_stage := Some Intent_classification,
       has_greeted := True,
       error_count := 0\<rparr>"

subsection \<open>Intent classification\<close>

definition image_marker :: string where
  "image_marker = ''[IMAGE_SENT]''"

definition quick_price_queries :: "string list" where
  "quick_price_queries =
     [''pp'', ''price please'', ''price pls'', ''rate pls'', ''rate please'',
      ''available?'', ''stock?'', ''available'', ''in stock'']"

definition is_quick_query :: "string \<Rightarrow> bool" where
  "is_quick_query last_msg =
     (len last_msg \<le> 20 \<and> list_ex (\<lambda>query. str_in query (strip (lower last_msg))) quick_price_queries)"

definition confirm_words :: "string list" where
  "confirm_words = [''yes'', ''y'', ''ok'', ''correct'', ''confirm'', ''right'', ''hai'']"

definition greeting_keywords :: "string list" where
  "greeting_keywords = [''hello'', ''hi'', ''hey'', ''start'', ''new'', ''hai'']"

definition late_stages :: "stage list" where
  "late_stages = [Product_selection, Order_confirmation]"

definition classifier_date_patterns :: "regex list" where
  "classifier_date_patterns =
     [Grp 1 months,
      seqs [between Digit 1 2, one (OneOf ''/-''), between Digit 1 2],
      lits [''tomorrow'', ''today'', ''next week'', ''asap'']]"

definition unhandleable_patterns :: "string list" where
  "unhandleable_patterns =
     [''refund'', ''cancel'', ''complaint'', ''issue'', ''problem'',
      ''shipping cost'', ''delivery charge'', ''payment method'',
      ''customization'', ''customize'', ''design change'',
      ''bulk discount'', ''wholesale'']"

definition hand_off :: "string \<Rightarrow> BotState \<Rightarrow> BotState" where
  "hand_off reason s =
     s\<lparr>current_stage := Some Handoff, needs_human_handoff := True,
       handoff_reason := Some reason\<rparr>"

text \<open>The last priority: the language model classifies the message.\<close>

definition classify_with_llm :: "(string \<Rightarrow> exn + string) \<Rightarrow> string \<Rightarrow> BotState \<Rightarrow> exn + BotState" where
  "classify_with_llm ask last_msg s =
     (case ask last_msg of
        Inl e \<Rightarrow> Inl e
      | Inr content \<Rightarrow>
          (let intent_text = lower content in
           if str_in ''track_order'' intent_text \<or> str_in ''ask_question'' intent_text
              \<or> str_in ''complaint'' intent_text
           then Inr (hand_off ''llm_classification'' s)
           else if str_in ''browse'' intent_text \<or> str_in ''product'' intent_text
                   \<or> str_in ''greeting'' intent_text
           then Inr (s\<lparr>intent := Some \<lparr>intent_label = ''browse_products'', confidence = 85 / 100,
                                       entities_mentioned = []\<rparr>,
                        current_stage := Some Requirement_extraction\<rparr>)
           else Inr (hand_off ''llm_classification'' s)))"

definition intent_classifier_node :: "(string \<Rightarrow> exn + string) \<Rightarrow> BotState \<Rightarrow> exn + BotState" where
  "intent_classifier_node ask s =
     (if needs_human_handoff s then Inr s
      else if user_messages s = [] then Inr s
      else
        let last_msg = last (user_messages s);
            msg_lower = strip (lower last_msg)
        in
        if str_in image_marker last_msg then Inr (hand_off ''image_sent'' s)
        else if is_quick_query last_msg then Inr (hand_off ''quick_price_query'' s)
        else if current_stage s = Some Awaiting_confirmation then
          (if msg_lower \<in> set confirm_words
           then Inr (s\<lparr>current_stage := Some Validation,
                        requirements := map_option (\<lambda>req. req\<lparr>needs_confirmation := False\<rparr>)
                                                   (requirements s)\<rparr>)
           else Inr (s\<lparr>current_stage := Some Requirement_extraction\<rparr>))
        else if msg_lower \<in> set greeting_keywords then
          (if current_stage s = Some Handoff
           then Inr (s\<lparr>current_stage := Some Requirement_extraction, requirements := None,
                        recommended_products := None, selected_product := None,
                        validation := None, has_greeted := True,
                        needs_human_handoff := False, handoff_reason := None\<rparr>)
           else if current_stage s \<in> Some ` set late_stages
           then Inr (s\<lparr>current_stage := Some Requirement_extraction, requirements := None,
                        recommended_products := None, selected_product := None,
                        validation := None, has_greeted := True\<rparr>)
           else Inr (s\<lparr>current_stage := Some Requirement_extraction\<rparr>))
        else if isdigit msg_lower then Inr (s\<lparr>current_stage := Some Requirement_extraction\<rparr>)
        else if length (split msg_lower) = 1 \<and> 2 < len msg_lower
        then Inr (s\<lparr>current_stage := Some Requirement_extraction\<rparr>)
        else if list_ex (\<lambda>pattern. search pattern msg_lower \<noteq> None) classifier_date_patterns
        then Inr (s\<lparr>current_stage := Some Requirement_extraction\<rparr>)
        else if list_ex (\<lambda>pattern. str_in pattern msg_lower) unhandleable_patterns
        then Inr (hand_off ''unhandleable_query'' s)
        else classify_with_llm ask last_msg s)"

subsection \<open>Requirement extraction\<close>

definition qty_keywords :: "string list" where
  "qty_keywords = [''quantity'', ''qty'', ''pieces'', ''pcs'']"

definition budget_keywords :: "string list" where
  "budget_keywords = [''budget'', ''price'', ''rs'', ''rupees'', rupee]"

definition has_qty_keyword :: "string \<Rightarrow> bool" where
  "has_qty_keyword last_msg = list_ex (\<lambda>word. str_in word (lower last_msg)) qty_keywords"

definition has_budget_keyword :: "string \<Rightarrow> bool" where
  "has_budget_keyword last_msg = list_ex (\<lambda>word. str_in word (lower last_msg)) budget_keywords"

text \<open>The merge loop over the extracted fields. The confirmation flag is always taken
  over; an extracted value fills an empty field; a filled quantity or budget is
  overwritten only when the message has a keyword of that field; timeline, location
  and preferences take every extracted value that is not empty.\<close>

definition smart_merge :: "ExtractedRequirements \<Rightarrow> ExtractedRequirements \<Rightarrow> string \<Rightarrow> ExtractedRequirements" where
  "smart_merge current_req extracted last_msg =
     current_req
       \<lparr>quantity :=
          (case quantity extracted of
             None \<Rightarrow> quantity current_req
           | Some v \<Rightarrow> if quantity current_req = None \<or> has_qty_keyword last_msg
                        then Some v else quantity current_req),
        budget_per_piece :=
          (case budget_per_piece extracted of
             None \<Rightarrow> budget_per_piece current_req
           | Some v \<Rightarrow> if budget_per_piece current_req = None \<or> has_budget_keyword last_msg
                        then Some v else budget_per_piece current_req),
        timeline :=
          (case timeline extracted of None \<Rightarrow> timeline current_req | Some v \<Rightarrow> Some v),
        location :=
          (case location extracted of None \<Rightarrow> location current_req | Some v \<Rightarrow> Some v),
        preferences :=
          (if preferences extracted = [] then preferences current_req
           else preferences extracted),
        needs_confirmation := needs_confirmation extracted\<rparr>"

text \<open>The sequential filling of a message that is only a number: \<open>None\<close> when the number
  is left to the normal extraction.\<close>

definition sequential_fill :: "ExtractedRequirements option \<Rightarrow> string \<Rightarrow> ExtractedRequirements option" where
  "sequential_fill current_req last_msg =
     (if isdigit (strip last_msg) then
        (case current_req of
           None \<Rightarrow> None
         | Some req \<Rightarrow>
             if quantity req = None then Some (req\<lparr>quantity := Some (int_of (strip last_msg))\<rparr>)
             else if budget_per_piece req = None
             then Some (req\<lparr>budget_per_piece := Some (int_of (strip last_msg))\<rparr>)
             else None)
      else None)"

definition requirement_extraction_node :: "BotState \<Rightarrow> BotState" where
  "requirement_extraction_node s =
     (let last_msg = (if user_messages s = [] then [] else last (user_messages s));
          current_req = requirements s
      in case sequential_fill current_req last_msg of
           Some filled \<Rightarrow> s\<lparr>requirements := Some filled, current_stage := Some Validation\<rparr>
         | None \<Rightarrow>
             (let extracted = extract_customer_requirements last_msg;
                  merged = (case current_req of
                              Some req \<Rightarrow> smart_merge req extracted last_msg
                            | None \<Rightarrow> extracted)
              in s\<lparr>requirements := Some merged, current_stage := Some Validation\<rparr>))"


subsection \<open>Routing after extraction, and asking\<close>

datatype route = To_validate | To_ask_confirmation

definition validation_router :: "BotState \<Rightarrow> route" where
  "validation_router s =
     (case requirements s of
        None \<Rightarrow> To_ask_confirmation
      | Some req \<Rightarrow>
          if \<not> (quantity req \<noteq> None \<and> budget_per_piece req \<noteq> None
                \<and> timeline req \<noteq> None \<and> location req \<noteq> None)
          then To_ask_confirmation
          else if needs_confirmation req then To_ask_confirmation
          else To_validate)"

text \<open>\<^verbatim>\<open>str(n)\<close> for an integer, and the text that an f-string gives for an optional
  value.\<close>

fun show_nat :: "nat \<Rightarrow> string" where
  "show_nat n = (if n < 10 then [digits ! n] else show_nat (n div 10) @ [digits ! (n mod 10)])"

definition show_int :: "int \<Rightarrow> string" where
  "show_int i = (if i < 0 then CHR ''-'' # show_nat (nat (- i)) else show_nat (nat i))"

definition show_opt_int :: "int option \<Rightarrow> string" where
  "show_opt_int v = (case v of None \<Rightarrow> ''None'' | Some i \<Rightarrow> show_int i)"

definition show_opt_str :: "string option \<Rightarrow> string" where
  "show_opt_str v = (case v of None \<Rightarrow> ''None'' | Some t \<Rightarrow> t)"

text \<open>Truth of an optional number and of an optional text: zero and the empty text are
  false.\<close>

definition truthy_int :: "int option \<Rightarrow> bool" where
  "truthy_int v = (v \<noteq> None \<and> v \<noteq> Some 0)"

definition truthy_str :: "string option \<Rightarrow> bool" where
  "truthy_str v = (v \<noteq> None \<and> v \<noteq> Some [])"

definition missing_fields :: "ExtractedRequirements \<Rightarrow> string list" where
  "missing_fields req =
     (if \<not> truthy_int (quantity req) then [''Quantity''] else [])
     @ (if \<not> truthy_int (budget_per_piece req) then [''Budget per piece''] else [])
     @ (if \<not> truthy_str (timeline req) then [''When needed''] else [])
     @ (if \<not> truthy_str (location req) then [''Delivery location''] else [])"

text \<open>\<^verbatim>\<open>", ".join(ws)\<close>\<close>

fun join_comma :: "string list \<Rightarrow> string" where
  "join_comma [] = []"
| "join_comma [w] = w"
| "join_comma (w # ws) = w @ '', '' @ join_comma ws"

definition confirmation_msg :: "ExtractedRequirements \<Rightarrow> string" where
  "confirmation_msg req =
     ''Can you please confirm?\<newline>\<newline>''
     @ ''Quantity: '' @ show_opt_int (quantity req) @ '' pieces\<newline>''
     @ ''Budget: '' @ rupee @ show_opt_int (budget_per_piece req) @ '' per piece\<newline>\<newline>''
     @ ''Reply \"yes\" to confirm or send correct values.''"

text \<open>With no missing field the source indexes an empty list.\<close>

definition ask_confirmation_node :: "BotState \<Rightarrow> exn + BotState" where
  "ask_confirmation_node s =
     (case requirements s of
        None \<Rightarrow> Inr (s\<lparr>current_stage := Some Requirement_extraction\<rparr>)
      | Some req \<Rightarrow>
          if needs_confirmation req \<and> truthy_int (quantity req)
             \<and> truthy_int (budget_per_piece req)
          then Inr (s\<lparr>messages := messages s @ [AIMessage (confirmation_msg req)],
                       current_stage := Some Awaiting_confirmation\<rparr>)
          else
            let missing = missing_fields req in
            if missing = [] then Inl IndexError
            else
              let items = (if length missing = 1 then missing ! 0
                           else join_comma (butlast missing) @ '' and '' @ last missing)
              in Inr (s\<lparr>messages := messages s
                                      @ [AIMessage (''Could you please share '' @ items @ ''?'')],
                         current_stage := Some Requirement_extraction\<rparr>))"

subsection \<open>Validation, product search, recommendation\<close>

definition validation_node :: "'d calendar \<Rightarrow> BotState \<Rightarrow> exn + BotState" where
  "validation_node cal s =
     (case requirements s of
        None \<Rightarrow> Inl AttributeError
      | Some req \<Rightarrow>
          (case timeline req of
             None \<Rightarrow> Inl ValueError
           | Some text \<Rightarrow>
               let timeline_result = calculate_timeline_urgency cal text
               in Inr (s\<lparr>validation :=
                            Some \<lparr>is_valid = True, issues = [], suggestions = [],
                                  v_delivery_date = Some (delivery_date timeline_result),
                                  v_urgency_level = urgency_level timeline_result\<rparr>,
                          current_stage := Some Product_search\<rparr>)))"

definition product_search_node :: "(int \<Rightarrow> exn + row list) \<Rightarrow> BotState \<Rightarrow> exn + BotState" where
  "product_search_node fetch s =
     (case requirements s of
        None \<Rightarrow> Inl AttributeError
      | Some req \<Rightarrow>
          (case (budget_per_piece req, quantity req) of
             (Some budget_max, Some qty) \<Rightarrow>
               (case search_matching_products fetch budget_max qty
                       (if preferences req \<noteq> [] then Some (preferences req) else None) of
                  Inl e \<Rightarrow> Inl e
                | Inr products \<Rightarrow>
                    Inr (s\<lparr>recommended_products := Some products,
                           current_stage := Some Recommendation\<rparr>))
           | _ \<Rightarrow> Inl ValueError))"

definition timeline_display_map :: "(string \<times> string) list" where
  "timeline_display_map =
     [(''asap'', ''ASAP''), (''today'', ''Today''), (''tomorrow'', ''Tomorrow''),
      (''this_week'', ''This week''), (''next_week'', ''Next week''),
      (''two_weeks'', ''In 2 weeks''), (''one_month'', ''In 1 month'')]"

text \<open>\<^verbatim>\<open>s.capitalize()\<close>\<close>

definition capitalize :: "string \<Rightarrow> string" where
  "capitalize s = (case s of [] \<Rightarrow> [] | c # cs \<Rightarrow> to_upper c # lower cs)"

definition month_then_digit :: regex where
  "month_then_digit = seqs [Grp 1 months, Grp 2 (one Digit)]"

definition spaced :: "string \<Rightarrow> rmatch_obj \<Rightarrow> string" where
  "spaced s m =
     (case group s m 1 of None \<Rightarrow> [] | Some t \<Rightarrow> t) @ '' ''
     @ (case group s m 2 of None \<Rightarrow> [] | Some t \<Rightarrow> t)"

definition format_timeline_display :: "string \<Rightarrow> string" where
  "format_timeline_display text =
     (case map_of timeline_display_map text of
        Some shown \<Rightarrow> shown
      | None \<Rightarrow> capitalize (sub_ignorecase month_then_digit spaced (strip text)))"

definition no_products_msg :: "ExtractedRequirements \<Rightarrow> string" where
  "no_products_msg req =
     ''Sorry mam/sir, no products available for '' @ rupee
     @ show_opt_int (budget_per_piece req) @ '' per piece.\<newline>\<newline>''
     @ ''Our team will help you find alternatives.\<newline>\<newline>''
     @ ''Thank you! '' @ folded_hands"

definition requirements_summary :: "ExtractedRequirements \<Rightarrow> string \<Rightarrow> nat \<Rightarrow> string" where
  "requirements_summary req timeline_display n =
     ''Based on your requirement,\<newline>\<newline>''
     @ ''Number of pieces: '' @ show_opt_int (quantity req) @ '' pieces\<newline>''
     @ ''Budget: '' @ rupee @ show_opt_int (budget_per_piece req) @ '' per piece\<newline>''
     @ ''Delivery location: '' @ show_opt_str (location req) @ ''\<newline>''
     @ ''When needed: '' @ timeline_display @ ''\<newline>\<newline>''
     @ ''Here are '' @ show_nat n @ '' options for you:''"

definition recommendation_node :: "BotState \<Rightarrow> exn + BotState" where
  "recommendation_node s =
     (case requirements s of
        None \<Rightarrow> Inl AttributeError
      | Some req \<Rightarrow>
          if recommended_products s = None \<or> recommended_products s = Some []
          then Inr ((hand_off ''no_products'' s)
                      \<lparr>messages := messages s @ [AIMessage (no_products_msg req)]\<rparr>)
          else
            (case timeline req of
               None \<Rightarrow> Inl AttributeError
             | Some text \<Rightarrow>
                 Inr ((hand_off ''products_shown'' s)
                        \<lparr>messages := messages s @ [AIMessage ''[SEND_PRODUCT_IMAGES_WITH_SUMMARY]''],
                         conversation_history_summary :=
                           Some (requirements_summary req (format_timeline_display text)
                                   (length (the (recommended_products s))))\<rparr>)))"

section \<open>The graph\<close>

text \<open>
  The graph has seven nodes. The source also defines a product selection node and an
  order confirmation node, which \<^verbatim>\<open>build_production_graph\<close> does not add to the graph;
  they never run and are not modelled.
\<close>

datatype node =
    N_greeting | N_classify_intent | N_extract_requirements | N_ask_confirmation
  | N_validate | N_search_products | N_recommend

definition entry_router :: "BotState \<Rightarrow> node" where
  "entry_router s =
     (if user_messages s \<noteq> [] \<and> str_in image_marker (last (user_messages s))
      then N_classify_intent
      else if user_messages s \<noteq> [] \<and> is_quick_query (last (user_messages s))
      then N_classify_intent
      else if \<not> has_greeted s then N_greeting
      else N_classify_intent)"

text \<open>\<open>True\<close> when the turn ends after the classifier.\<close>

definition post_intent_router :: "BotState \<Rightarrow> bool" where
  "post_intent_router s = (current_stage s = Some Handoff \<or> needs_human_handoff s)"

text \<open>The nodes that run from the extraction node on, with the final state.\<close>

definition after_extraction :: "'d services \<Rightarrow> BotState \<Rightarrow> exn + node list \<times> BotState" where
  "after_extraction sv s =
     (let s1 = requirement_extraction_node s in
      case validation_router s1 of
        To_ask_confirmation \<Rightarrow>
          (case ask_confirmation_node s1 of
             Inl e \<Rightarrow> Inl e
           | Inr s2 \<Rightarrow> Inr ([N_extract_requirements, N_ask_confirmation], s2))
      | To_validate \<Rightarrow>
          (case validation_node (calendar_of sv) s1 of
             Inl e \<Rightarrow> Inl e
           | Inr s2 \<Rightarrow>
               (case product_search_node (fetch_rows sv) s2 of
                  Inl e \<Rightarrow> Inl e
                | Inr s3 \<Rightarrow>
                    (case recommendation_node s3 of
                       Inl e \<Rightarrow> Inl e
                     | Inr s4 \<Rightarrow>
                         Inr ([N_extract_requirements, N_validate, N_search_products,
                               N_recommend], s4)))))"

text \<open>One run of the graph on a state that already holds the new message: the nodes
  that ran, in order, and the state at the end, or the exception that ended the run.\<close>

definition run_graph :: "'d services \<Rightarrow> BotState \<Rightarrow> exn + node list \<times> BotState" where
  "run_graph sv s =
     (case entry_router s of
        N_greeting \<Rightarrow> Inr ([N_greeting], greeting_node s)
      | _ \<Rightarrow>
          (case intent_classifier_node (llm sv) s of
             Inl e \<Rightarrow> Inl e
           | Inr s1 \<Rightarrow>
               if post_intent_router s1 then Inr ([N_classify_intent], s1)
               else (case after_extraction sv s1 of
                       Inl e \<Rightarrow> Inl e
                     | Inr (ns, s2) \<Rightarrow> Inr (N_classify_intent # ns, s2))))"

text \<open>\<^verbatim>\<open>graph.invoke\<close> of \<^verbatim>\<open>chat\<close>: the message is appended to the stored messages, the
  user id is written, and the graph runs from its entry point.\<close>

definition invoke :: "'d services \<Rightarrow> BotState \<Rightarrow> string \<Rightarrow> string \<Rightarrow> exn + node list \<times> BotState" where
  "invoke sv stored uid message =
     run_graph sv (stored\<lparr>messages := messages stored @ [HumanMessage message], user_id := uid\<rparr>)"


section \<open>Sample conversations\<close>

text \<open>Services for the examples: a language model that always answers
  \<open>browse_products\<close>, the small catalogue, and a calendar that counts days and whose
  parser rejects every text.\<close>

definition sample_services :: "int services" where
  "sample_services =
     \<lparr>llm = (\<lambda>m. Inr ''browse_products''),
      fetch_rows = (\<lambda>q. Inr sample_rows),
      calendar_of =
        \<lparr>now = 0, plus_days = (\<lambda>d n. d + n), parse_date = (\<lambda>t d. None),
         next_year = (\<lambda>d t. Some (d + 365)), earlier = (\<lambda>a b. Some (a < b)),
         days_between = (\<lambda>a b. Some (a - b)), strftime = (\<lambda>d. ''day'')\<rparr>\<rparr>"

text \<open>A conversation after the products were shown, one after a message with keywords
  for both numbers, and one in which the bot has asked for the budget.\<close>

definition handed_off_conversation :: BotState where
  "handed_off_conversation =
     new_conversation
       \<lparr>messages := [HumanMessage ''Hi'', AIMessage greeting_msg,
                     HumanMessage ''50 pieces budget 80 tomorrow chennai'',
                     AIMessage ''[SEND_PRODUCT_IMAGES_WITH_SUMMARY]''],
        requirements := Some \<lparr>quantity = Some 50, budget_per_piece = Some 80,
                              timeline = Some ''tomorrow'', location = Some ''Chennai'',
                              preferences = [], needs_confirmation = False\<rparr>,
        current_stage := Some Handoff,
        handoff_reason := Some ''products_shown'',
        has_greeted := True,
        needs_human_handoff := True\<rparr>"

definition anchored_conversation :: BotState where
  "anchored_conversation =
     new_conversation
       \<lparr>messages := [HumanMessage ''budget 80 for 50''],
        requirements := Some (extract_customer_requirements ''budget 80 for 50''),
        has_greeted := True\<rparr>"

definition asked_for_budget :: BotState where
  "asked_for_budget =
     new_conversation
       \<lparr>messages := [HumanMessage ''500 chennai'', AIMessage ''Could you please share Budget per piece and When needed?'',
                     HumanMessage ''45''],
        requirements := Some \<lparr>quantity = Some 500, budget_per_piece = None, timeline = None,
                              location = Some ''Chennai'', preferences = [],
                              needs_confirmation = False\<rparr>,
        current_stage := Some Requirement_extraction,
        has_greeted := True\<rparr>"


section \<open>Properties of the field extractor\<close>

lemma extract_quantity_budget:
  "(quantity (extract_customer_requirements message),
    budget_per_piece (extract_customer_requirements message)) =
   position_based (keyword_number qty_patterns (lower message))
                  (keyword_number budget_patterns (lower message))
                  (unclaimed_numbers message)"
  by (simp add: extract_customer_requirements_def unclaimed_numbers_def Let_def
           split: prod.splits)

lemma extract_needs_confirmation:
  "needs_confirmation (extract_customer_requirements message) =
     (quantity (extract_customer_requirements message) \<noteq> None
      \<and> budget_per_piece (extract_customer_requirements message) \<noteq> None
      \<and> keyword_number qty_patterns (lower message) = None
      \<and> keyword_number budget_patterns (lower message) = None)"
  by (simp add: extract_customer_requirements_def Let_def split: prod.splits)

text \<open>
  What step 4 does with the list that it keeps: when no quantity pattern and no budget
  pattern matches and the list \<open>unclaimed_numbers\<close> has at least two entries, the
  quantity is its first entry, the budget its second, and the extractor asks for
  confirmation.
\<close>

theorem two_bare_numbers_positional:
  assumes "keyword_number qty_patterns (lower message) = None"
    and "keyword_number budget_patterns (lower message) = None"
    and "2 \<le> length (unclaimed_numbers message)"
  shows "quantity (extract_customer_requirements message) = Some (unclaimed_numbers message ! 0)
       \<and> budget_per_piece (extract_customer_requirements message)
           = Some (unclaimed_numbers message ! 1)
       \<and> needs_confirmation (extract_customer_requirements message)"
proof -
  have qb: "position_based None None (unclaimed_numbers message)
            = (Some (unclaimed_numbers message ! 0), Some (unclaimed_numbers message ! 1))"
    using assms(3) by (simp add: position_based_def)
  have "(quantity (extract_customer_requirements message),
         budget_per_piece (extract_customer_requirements message))
        = (Some (unclaimed_numbers message ! 0), Some (unclaimed_numbers message ! 1))"
    using extract_quantity_budget [of message] assms(1,2) qb by simp
  then show ?thesis
    using assms(1,2) by (simp add: extract_needs_confirmation)
qed

theorem two_bare_numbers_positional_witness:
  "unclaimed_numbers ''50\<newline>100\<newline>Feb 22\<newline>Chennai'' = [50, 100]
   \<and> quantity (extract_customer_requirements ''50\<newline>100\<newline>Feb 22\<newline>Chennai'') = Some 50
   \<and> budget_per_piece (extract_customer_requirements ''50\<newline>100\<newline>Feb 22\<newline>Chennai'')
       = Some 100
   \<and> needs_confirmation (extract_customer_requirements ''50\<newline>100\<newline>Feb 22\<newline>Chennai'')"
proof -
  have q: "keyword_number qty_patterns (lower ''50\<newline>100\<newline>Feb 22\<newline>Chennai'') = None"
    by code_simp
  have b: "keyword_number budget_patterns (lower ''50\<newline>100\<newline>Feb 22\<newline>Chennai'') = None"
    by code_simp
  have u: "unclaimed_numbers ''50\<newline>100\<newline>Feb 22\<newline>Chennai'' = [50, 100]"
    by code_simp
  have n: "2 \<le> length (unclaimed_numbers ''50\<newline>100\<newline>Feb 22\<newline>Chennai'')"
    by (simp add: u)
  show ?thesis
    using two_bare_numbers_positional [OF q b n] u by simp
qed

text \<open>
  C1. The message \<open>22 500 on feb 22\<close> has the number tokens 22, 500 and 22 at the places
  0 to 2, 3 to 6 and 14 to 16, and one date match, \<open>feb 22\<close> at 10 to 16; no quantity
  or budget pattern matches. So 22 and 500 are two bare numbers outside the date match,
  and by the claim the quantity is 22, the budget 500, and confirmation is asked. The
  code drops the first 22 too, because its text is that of the date's day: the quantity
  is 500, the budget stays empty, and no confirmation is asked.
\<close>

theorem repeated_date_number_is_dropped:
  "number_spans ''22 500 on feb 22'' = [(0, 2), (3, 6), (14, 16)]
   \<and> all_numbers ''22 500 on feb 22'' = [''22'', ''500'', ''22'']
   \<and> date_spans (lower ''22 500 on feb 22'') = [(10, 16)]
   \<and> date_matches (lower ''22 500 on feb 22'') = [''feb 22'']
   \<and> keyword_number qty_patterns (lower ''22 500 on feb 22'') = None
   \<and> keyword_number budget_patterns (lower ''22 500 on feb 22'') = None
   \<and> quantity (extract_customer_requirements ''22 500 on feb 22'') = Some 500
   \<and> budget_per_piece (extract_customer_requirements ''22 500 on feb 22'') = None
   \<and> \<not> needs_confirmation (extract_customer_requirements ''22 500 on feb 22'')"
  by code_simp

subsection \<open>The timeline is a date match of the lower-cased text\<close>













subsection \<open>What the position-based step may pick\<close>










section \<open>Properties of the timeline resolver\<close>

lemma try_block_fails_default:
  assumes "map_of timeline_config (lower text) = None"
    and "parse_actual_date cal text = None"
  shows "calculate_timeline_urgency cal text
         = timeline_answer cal (plus_days cal (now cal) 7) 7 Medium"
  using assms by (simp add: calculate_timeline_urgency_def)

lemma parse_fails_try_block:
  "parse_date cal text (now cal) = None \<Longrightarrow> parse_actual_date cal text = None"
  by (simp add: parse_actual_date_def)

text \<open>
  C8. The resolver has a result for every text, since whatever the \<^verbatim>\<open>try\<close> block raises
  is caught. For a text that is no timeline code and that the date parser rejects, the
  result is the default: seven days from now, medium urgency, no rush order.
\<close>

theorem unparseable_timeline_default:
  assumes "map_of timeline_config (lower text) = None"
    and "parse_date cal text (now cal) = None"
  shows "calculate_timeline_urgency cal text
         = \<lparr>delivery_date = strftime cal (plus_days cal (now cal) 7), days_remaining = 7,
            urgency_level = Medium, is_rush_order = False\<rparr>"
  using try_block_fails_default [OF assms(1) parse_fails_try_block [OF assms(2)]]
  by (simp add: timeline_answer_def)

theorem unparseable_timeline_default_witness:
  "map_of timeline_config (lower ''whenever'') = None
   \<and> calculate_timeline_urgency
        \<lparr>now = (0::int), plus_days = (\<lambda>d n. d + n), parse_date = (\<lambda>s d. None),
         next_year = (\<lambda>d t. Some (d + 365)), earlier = (\<lambda>a b. Some (a < b)),
         days_between = (\<lambda>a b. Some (a - b)), strftime = (\<lambda>d. ''day'')\<rparr> ''whenever''
       = \<lparr>delivery_date = ''day'', days_remaining = 7, urgency_level = Medium,
          is_rush_order = False\<rparr>"
proof -
  have c: "map_of timeline_config (lower ''whenever'') = None"
    by code_simp
  show ?thesis
    using unparseable_timeline_default
            [of "''whenever''"
                "\<lparr>now = (0::int), plus_days = (\<lambda>d n. d + n), parse_date = (\<lambda>s d. None),
                  next_year = (\<lambda>d t. Some (d + 365)), earlier = (\<lambda>a b. Some (a < b)),
                  days_between = (\<lambda>a b. Some (a - b)), strftime = (\<lambda>d. ''day'')\<rparr>", OF c]
      c
    by simp
qed

section \<open>Properties of the product matcher\<close>

lemma match_products_score:
  "match_products prefs budget_max qty ps = Inr found \<Longrightarrow> p \<in> set found \<Longrightarrow>
     relevance prefs budget_max (category p) (price p) = Inr (relevance_score p)
     \<and> price p \<le> budget_max"
proof (induction ps arbitrary: found)
  case Nil
  then show ?case by simp
next
  case (Cons c cs)
  show ?case
  proof (cases "applicable_price budget_max qty c")
    case (Inl e)
    with Cons.prems show ?thesis by simp
  next
    case (Inr ap)
    show ?thesis
    proof (cases ap)
      case None
      with Inr Cons show ?thesis by simp
    next
      case (Some a)
      show ?thesis
      proof (cases "budget_max < a")
        case True
        with Inr Some Cons show ?thesis by simp
      next
        case False
        from Cons.prems(1) Inr Some False
        obtain score rest where
          sc: "relevance prefs budget_max (p_category c) a = Inr score" and
          rs: "match_products prefs budget_max qty cs = Inr rest" and
          fd: "found = \<lparr>name = p_name c, price = a, category = p_category c,
                        min_order = p_min_order c, image_url = p_image_url c,
                        relevance_score = score\<rparr> # rest"
          by (auto split: sum.splits)
        from Cons.prems(2) fd consider
          "p = \<lparr>name = p_name c, price = a, category = p_category c,
                min_order = p_min_order c, image_url = p_image_url c,
                relevance_score = score\<rparr>" | "p \<in> set rest"
          by auto
        then show ?thesis
        proof cases
          case 1
          with sc False show ?thesis by simp
        next
          case 2
          with Cons.IH rs show ?thesis by blast
        qed
      qed
    qed
  qed
qed

lemma search_found_score:
  assumes "search_matching_products fetch budget_max qty wanted = Inr found"
    and "p \<in> set found"
  shows "relevance (case wanted of None \<Rightarrow> [] | Some ps \<Rightarrow> ps) budget_max (category p) (price p)
         = Inr (relevance_score p) \<and> price p \<le> budget_max"
proof -
  let ?prefs = "case wanted of None \<Rightarrow> [] | Some ps \<Rightarrow> ps"
  from assms(1) obtain rows unsorted where
    m: "match_products ?prefs budget_max qty (map snd (products_dict rows)) = Inr unsorted" and
    f: "found = sort_key (\<lambda>p. - relevance_score p) unsorted"
    by (auto simp: search_matching_products_def Let_def split: sum.splits)
  from f assms(2) have "p \<in> set unsorted" by simp
  with m show ?thesis by (rule match_products_score)
qed

text \<open>
  C9, as the code has it. The score of every product that the matcher returns is 100,
  plus 30, 25 and 20 for the three preference matches, plus the price bonus, which is the
  binary64 value of \<open>(1 - price / budget) * 20\<close> with its fraction cut off by \<^verbatim>\<open>int()\<close>, not
  rounded to the nearest integer.
\<close>

theorem relevance_score_truncates:
  assumes "search_matching_products fetch budget_max qty wanted = Inr found"
    and "p \<in> set found"
    and "prefs = (case wanted of None \<Rightarrow> [] | Some ps \<Rightarrow> ps)"
  shows "relevance_score p =
           100
           + (if ''eco_friendly'' \<in> set prefs \<and> category p = Some ''Eco-Friendly'' then 30 else 0)
           + (if ''traditional'' \<in> set prefs
                 \<and> (category p = Some ''Traditional'' \<or> category p = Some ''Premium Traditional'')
              then 25 else 0)
           + (if ''premium'' \<in> set prefs \<and> (\<exists>c. category p = Some c \<and> str_in ''Premium'' c)
              then 20 else 0)
           + trunc (fl (fl (1 - fl (of_int (price p) / of_int budget_max)) * 20))"
proof -
  have r: "relevance prefs budget_max (category p) (price p) = Inr (relevance_score p)"
    using search_found_score [OF assms(1,2)] assms(3) by simp
  show ?thesis
  proof (cases "category p")
    case None
    with r show ?thesis
      by (auto simp: relevance_def price_bonus_def Let_def split: if_splits)
  next
    case (Some c)
    with r show ?thesis
      by (auto simp: relevance_def price_bonus_def Let_def split: if_splits)
  qed
qed

lemma sample_search:
  "search_matching_products (\<lambda>q. Inr sample_rows) 80 100 (Some [''eco_friendly''])
   = Inr [\<lparr>name = ''Jute Bag'', price = 45, category = Some ''Eco-Friendly'',
            min_order = Some 10, image_url = None, relevance_score = 138\<rparr>,
          \<lparr>name = ''Brass Lamp'', price = 10, category = Some ''Traditional'',
            min_order = Some 10, image_url = None, relevance_score = 117\<rparr>]"
  by code_simp

theorem relevance_score_truncates_witness:
  "search_matching_products (\<lambda>q. Inr sample_rows) 80 100 (Some [''eco_friendly''])
   = Inr [\<lparr>name = ''Jute Bag'', price = 45, category = Some ''Eco-Friendly'',
            min_order = Some 10, image_url = None, relevance_score = 138\<rparr>,
          \<lparr>name = ''Brass Lamp'', price = 10, category = Some ''Traditional'',
            min_order = Some 10, image_url = None, relevance_score = 117\<rparr>]
   \<and> (138::int) = 100 + 30 + 0 + 0 + trunc (fl (fl (1 - fl (of_int 45 / of_int 80)) * 20))"
proof -
  let ?p = "\<lparr>name = ''Jute Bag'', price = 45, category = Some ''Eco-Friendly'',
             min_order = Some 10, image_url = None, relevance_score = 138\<rparr>"
  let ?q = "\<lparr>name = ''Brass Lamp'', price = 10, category = Some ''Traditional'',
             min_order = Some 10, image_url = None, relevance_score = 117\<rparr>"
  have m: "?p \<in> set [?p, ?q]" by simp
  have e: "[''eco_friendly''] = (case Some [''eco_friendly''] of None \<Rightarrow> [] | Some ps \<Rightarrow> ps)"
    by simp
  show ?thesis
    using relevance_score_truncates [OF sample_search m e] sample_search by simp
qed

text \<open>
  C9, as the claim states it, fails: for a budget of 80 and a price of 10 the bonus value
  is 17.5, exactly representable in binary64; the code adds 17, rounding to the nearest
  integer would add 18.
\<close>

theorem relevance_score_round_counterexample:
  "search_matching_products (\<lambda>q. Inr sample_rows) 80 100 None
   = Inr [\<lparr>name = ''Brass Lamp'', price = 10, category = Some ''Traditional'',
            min_order = Some 10, image_url = None, relevance_score = 117\<rparr>,
          \<lparr>name = ''Jute Bag'', price = 45, category = Some ''Eco-Friendly'',
            min_order = Some 10, image_url = None, relevance_score = 108\<rparr>]
   \<and> fl (fl (1 - fl (of_int 10 / of_int 80)) * 20) = 35 / 2
   \<and> 100 + round ((1 - 10 / 80) * 20 :: rat) = (118::int)"
  by code_simp

section \<open>Properties of the dialogue controller\<close>

lemma user_messages_append:
  "user_messages (s\<lparr>messages := messages s @ [HumanMessage m], user_id := u\<rparr>)
   = user_messages s @ [m]"
  by (simp add: user_messages_def)

lemma classifier_silent_when_handed_off:
  "needs_human_handoff s \<Longrightarrow> intent_classifier_node ask s = Inr s"
  by (simp add: intent_classifier_node_def)

lemma classifier_image:
  assumes "\<not> needs_human_handoff s" and "user_messages s \<noteq> []"
    and "str_in image_marker (last (user_messages s))"
  shows "intent_classifier_node ask s = Inr (hand_off ''image_sent'' s)"
  using assms by (simp add: intent_classifier_node_def Let_def)

lemma classifier_quick_query:
  assumes "\<not> needs_human_handoff s" and "user_messages s \<noteq> []"
    and "\<not> str_in image_marker (last (user_messages s))"
    and "is_quick_query (last (user_messages s))"
  shows "intent_classifier_node ask s = Inr (hand_off ''quick_price_query'' s)"
  using assms by (simp add: intent_classifier_node_def Let_def)

lemma run_graph_classifier_ends:
  assumes "entry_router s = N_classify_intent"
    and "intent_classifier_node (llm sv) s = Inr s1"
    and "post_intent_router s1"
  shows "run_graph sv s = Inr ([N_classify_intent], s1)"
  using assms by (simp add: run_graph_def)

lemma post_intent_router_hand_off: "post_intent_router (hand_off reason s)"
  by (simp add: post_intent_router_def hand_off_def)

lemma requirement_node_requirements:
  assumes "requirements s = Some req" and "user_messages s \<noteq> []"
    and "last (user_messages s) = msg"
  shows "requirements (requirement_extraction_node s) =
           Some (case sequential_fill (Some req) msg of
                   Some filled \<Rightarrow> filled
                 | None \<Rightarrow> smart_merge req (extract_customer_requirements msg) msg)"
  using assms by (simp add: requirement_extraction_node_def Let_def split: option.splits)

subsection \<open>C3: a greeting after a handoff\<close>

text \<open>
  C3. The classifier has a branch that resets a conversation in the handoff stage when
  the message is a greeting keyword, and that branch clears the handoff flag. It is not
  reached: every handoff of the graph sets the flag \<open>needs_human_handoff\<close>, and the
  first test of the classifier returns without any change when the flag is set. After
  a handoff the message \<open>hello\<close> leaves the stage and the requirements as they are.
\<close>

theorem greeting_after_handoff_changes_nothing:
  "invoke sv handed_off_conversation ''u'' ''hello''
   = Inr ([N_classify_intent],
          handed_off_conversation
            \<lparr>messages := messages handed_off_conversation @ [HumanMessage ''hello''],
             user_id := ''u''\<rparr>)
   \<and> current_stage handed_off_conversation = Some Handoff
   \<and> ''hello'' \<in> set greeting_keywords"
proof -
  let ?s = "handed_off_conversation
              \<lparr>messages := messages handed_off_conversation @ [HumanMessage ''hello''],
               user_id := ''u''\<rparr>"
  have h: "needs_human_handoff ?s"
    by (simp add: handed_off_conversation_def new_conversation_def)
  have g: "has_greeted ?s"
    by (simp add: handed_off_conversation_def new_conversation_def)
  have e: "entry_router ?s = N_classify_intent"
    using g by (simp add: entry_router_def)
  have c: "intent_classifier_node (llm sv) ?s = Inr ?s"
    using h by (rule classifier_silent_when_handed_off)
  have p: "post_intent_router ?s"
    using h by (simp add: post_intent_router_def)
  have "run_graph sv ?s = Inr ([N_classify_intent], ?s)"
    using e c p by (rule run_graph_classifier_ends)
  moreover have "current_stage handed_off_conversation = Some Handoff"
    by (simp add: handed_off_conversation_def new_conversation_def)
  moreover have "''hello'' \<in> set greeting_keywords"
    by (simp add: greeting_keywords_def)
  ultimately show ?thesis
    by (simp add: invoke_def)
qed

text \<open>The reset branch itself does what it says: with the stage at handoff and the flag
  clear, the message \<open>hello\<close> clears requirements, products and validation and moves the
  stage to requirement extraction.\<close>

lemma greeting_resets_when_flag_is_clear:
  assumes "\<not> needs_human_handoff s" and "current_stage s = Some Handoff"
    and "user_messages s \<noteq> []" and "last (user_messages s) = ''hello''"
  shows "intent_classifier_node ask s
         = Inr (s\<lparr>current_stage := Some Requirement_extraction, requirements := None,
                  recommended_products := None, selected_product := None,
                  validation := None, has_greeted := True,
                  needs_human_handoff := False, handoff_reason := None\<rparr>)"
proof -
  have i: "\<not> str_in image_marker ''hello''" by code_simp
  have q: "\<not> is_quick_query ''hello''" by code_simp
  have g: "strip (lower ''hello'') \<in> set greeting_keywords" by code_simp
  show ?thesis
    using assms i q g by (simp add: intent_classifier_node_def Let_def)
qed

subsection \<open>C4: what the merge keeps\<close>

lemma smart_merge_keeps_quantity:
  "quantity req \<noteq> None \<Longrightarrow> \<not> has_qty_keyword msg
   \<Longrightarrow> quantity (smart_merge req extracted msg) = quantity req"
  by (auto simp: smart_merge_def split: option.splits)

lemma smart_merge_keeps_budget:
  "budget_per_piece req \<noteq> None \<Longrightarrow> \<not> has_budget_keyword msg
   \<Longrightarrow> budget_per_piece (smart_merge req extracted msg) = budget_per_piece req"
  by (auto simp: smart_merge_def split: option.splits)

lemma sequential_fill_keeps:
  "sequential_fill (Some req) msg = Some filled \<Longrightarrow>
     (quantity req \<noteq> None \<longrightarrow> quantity filled = quantity req)
     \<and> (budget_per_piece req \<noteq> None \<longrightarrow> budget_per_piece filled = budget_per_piece req)"
  by (auto simp: sequential_fill_def split: if_splits)

text \<open>
  The gate of the merge. The extraction node replaces a quantity that is already set
  only when the lower-cased message contains one of \<open>quantity\<close>, \<open>qty\<close>, \<open>pieces\<close>, \<open>pcs\<close>
  as a substring, and a budget that is already set only when it contains one of
  \<open>budget\<close>, \<open>price\<close>, \<open>rs\<close>, \<open>rupees\<close> or the rupee sign as a substring.
\<close>

theorem set_value_kept_without_keyword:
  assumes "requirements s = Some req" and "user_messages s \<noteq> []"
    and "last (user_messages s) = msg"
  shows "\<exists>merged. requirements (requirement_extraction_node s) = Some merged
           \<and> (quantity req \<noteq> None \<and> \<not> has_qty_keyword msg
                \<longrightarrow> quantity merged = quantity req)
           \<and> (budget_per_piece req \<noteq> None \<and> \<not> has_budget_keyword msg
                \<longrightarrow> budget_per_piece merged = budget_per_piece req)"
proof (cases "sequential_fill (Some req) msg")
  case None
  then have "requirements (requirement_extraction_node s)
             = Some (smart_merge req (extract_customer_requirements msg) msg)"
    using requirement_node_requirements [OF assms] by simp
  then show ?thesis
    using smart_merge_keeps_quantity smart_merge_keeps_budget by auto
next
  case (Some filled)
  then have "requirements (requirement_extraction_node s) = Some filled"
    using requirement_node_requirements [OF assms] by simp
  then show ?thesis
    using sequential_fill_keeps [OF Some] by auto
qed

lemma anchored_requirements:
  "extract_customer_requirements ''budget 80 for 50''
   = \<lparr>quantity = Some 50, budget_per_piece = Some 80, timeline = None, location = None,
      preferences = [], needs_confirmation = False\<rparr>"
  by code_simp

theorem set_value_kept_without_keyword_witness:
  "\<not> has_qty_keyword ''100 45'' \<and> \<not> has_budget_keyword ''100 45''
   \<and> (\<exists>merged.
         requirements (requirement_extraction_node
                         (anchored_conversation
                            \<lparr>messages := messages anchored_conversation @ [HumanMessage ''100 45'']\<rparr>))
           = Some merged
         \<and> quantity merged = Some 50 \<and> budget_per_piece merged = Some 80)"
proof -
  let ?s = "anchored_conversation
              \<lparr>messages := messages anchored_conversation @ [HumanMessage ''100 45'']\<rparr>"
  let ?req = "\<lparr>quantity = Some 50, budget_per_piece = Some 80, timeline = None,
               location = None, preferences = [], needs_confirmation = False\<rparr>"
  have r: "requirements ?s = Some ?req"
    by (simp add: anchored_conversation_def anchored_requirements)
  have u: "user_messages ?s \<noteq> []"
    by (simp add: user_messages_def anchored_conversation_def new_conversation_def)
  have l: "last (user_messages ?s) = ''100 45''"
    by (simp add: user_messages_def anchored_conversation_def new_conversation_def)
  have q: "\<not> has_qty_keyword ''100 45''" by code_simp
  have b: "\<not> has_budget_keyword ''100 45''" by code_simp
  from set_value_kept_without_keyword [OF r u l] q b show ?thesis
    by simp
qed

text \<open>
  C4. The source says of the merge that a value is overwritten only when the extraction
  found keywords, not for a position-based one. The gate tests substrings of the
  message instead. In \<open>budget 80 for 50\<close> both values come from keyword patterns. In the
  next message, \<open>first 100 then 45\<close>, no keyword pattern matches and both numbers are
  positional; the word \<open>first\<close> contains \<open>rs\<close>, the merge takes this for a budget
  keyword, and the keyword-anchored budget 80 becomes the positional 45.
\<close>

theorem positional_overwrites_anchored_value:
  "keyword_number qty_patterns (lower ''budget 80 for 50'') = Some 50
   \<and> keyword_number budget_patterns (lower ''budget 80 for 50'') = Some 80
   \<and> keyword_number qty_patterns (lower ''first 100 then 45'') = None
   \<and> keyword_number budget_patterns (lower ''first 100 then 45'') = None
   \<and> requirements (requirement_extraction_node
                     (anchored_conversation
                        \<lparr>messages := messages anchored_conversation
                                      @ [HumanMessage ''first 100 then 45'']\<rparr>))
     = Some \<lparr>quantity = Some 50, budget_per_piece = Some 45, timeline = None,
             location = None, preferences = [], needs_confirmation = True\<rparr>"
  by code_simp

subsection \<open>C6: a message that is only a number\<close>

text \<open>
  C6. With a requirement record in the state, a message that is only a number goes to
  the quantity when the quantity is empty, else to the budget when the budget is empty,
  and nothing else of the record changes; the extractor is not consulted. When both are
  set, the message takes the normal path: extraction and merge.
\<close>

theorem bare_number_fills_first_empty_slot:
  assumes "requirements s = Some req" and "user_messages s \<noteq> []"
    and "last (user_messages s) = msg" and "isdigit (strip msg)"
  shows "requirements (requirement_extraction_node s) =
           Some (if quantity req = None then req\<lparr>quantity := Some (int_of (strip msg))\<rparr>
                 else if budget_per_piece req = None
                 then req\<lparr>budget_per_piece := Some (int_of (strip msg))\<rparr>
                 else smart_merge req (extract_customer_requirements msg) msg)"
  using requirement_node_requirements [OF assms(1,2,3)] assms(4)
  by (simp add: sequential_fill_def)

theorem bare_number_fills_first_empty_slot_witness:
  "isdigit (strip ''45'')
   \<and> requirements (requirement_extraction_node asked_for_budget)
     = Some \<lparr>quantity = Some 500, budget_per_piece = Some 45, timeline = None,
             location = Some ''Chennai'', preferences = [], needs_confirmation = False\<rparr>"
proof -
  let ?req = "\<lparr>quantity = Some 500, budget_per_piece = None, timeline = None,
               location = Some ''Chennai'', preferences = [], needs_confirmation = False\<rparr>"
  have r: "requirements asked_for_budget = Some ?req"
    by (simp add: asked_for_budget_def)
  have u: "user_messages asked_for_budget \<noteq> []"
    by (simp add: user_messages_def asked_for_budget_def new_conversation_def)
  have l: "last (user_messages asked_for_budget) = ''45''"
    by (simp add: user_messages_def asked_for_budget_def new_conversation_def)
  have d: "isdigit (strip ''45'')" by code_simp
  have i: "int_of (strip ''45'') = 45" by code_simp
  from bare_number_fills_first_empty_slot [OF r u l d] d i show ?thesis
    by simp
qed

subsection \<open>C7: a message with the image marker\<close>

lemma entry_router_image:
  "str_in image_marker message \<Longrightarrow>
   entry_router (s\<lparr>messages := messages s @ [HumanMessage message], user_id := uid\<rparr>)
   = N_classify_intent"
  by (simp add: entry_router_def user_messages_append)

lemma entry_router_quick_query:
  "is_quick_query message \<Longrightarrow>
   entry_router (s\<lparr>messages := messages s @ [HumanMessage message], user_id := uid\<rparr>)
   = N_classify_intent"
  by (simp add: entry_router_def user_messages_append)

text \<open>
  C7, as the code has it. In a conversation that is not handed off, greeted or not, a
  message that contains the image marker runs the classifier alone: no greeting node,
  no message of the assistant, and the state moves to the handoff stage with the flag
  set and the reason \<open>image_sent\<close>.
\<close>

theorem image_forces_handoff:
  assumes "\<not> needs_human_handoff s" and "str_in image_marker message"
  shows "\<exists>s'. invoke sv s uid message = Inr ([N_classify_intent], s')
           \<and> current_stage s' = Some Handoff
           \<and> needs_human_handoff s'
           \<and> handoff_reason s' = Some ''image_sent''
           \<and> messages s' = messages s @ [HumanMessage message]"
proof -
  let ?s = "s\<lparr>messages := messages s @ [HumanMessage message], user_id := uid\<rparr>"
  have n: "\<not> needs_human_handoff ?s" using assms(1) by simp
  have u: "user_messages ?s \<noteq> []" by (simp add: user_messages_append)
  have l: "str_in image_marker (last (user_messages ?s))"
    using assms(2) by (simp add: user_messages_append)
  have c: "intent_classifier_node (llm sv) ?s = Inr (hand_off ''image_sent'' ?s)"
    using n u l by (rule classifier_image)
  have "run_graph sv ?s = Inr ([N_classify_intent], hand_off ''image_sent'' ?s)"
    using entry_router_image [OF assms(2)] c post_intent_router_hand_off
    by (rule run_graph_classifier_ends)
  then have "invoke sv s uid message = Inr ([N_classify_intent], hand_off ''image_sent'' ?s)"
    by (simp add: invoke_def)
  then show ?thesis
    by (simp add: hand_off_def)
qed

theorem image_forces_handoff_witness:
  "\<not> has_greeted new_conversation
   \<and> (\<exists>s'. invoke sample_services new_conversation ''u'' ''[IMAGE_SENT]''
              = Inr ([N_classify_intent], s')
          \<and> current_stage s' = Some Handoff
          \<and> needs_human_handoff s'
          \<and> handoff_reason s' = Some ''image_sent''
          \<and> messages s' = messages new_conversation @ [HumanMessage ''[IMAGE_SENT]''])"
proof -
  have n: "\<not> needs_human_handoff new_conversation"
    by (simp add: new_conversation_def)
  have i: "str_in image_marker ''[IMAGE_SENT]''"
    by code_simp
  have g: "\<not> has_greeted new_conversation"
    by (simp add: new_conversation_def)
  from image_forces_handoff [OF n i, of sample_services "''u''"] g show ?thesis
    by blast
qed

text \<open>
  C7, as the claim states it, fails for a conversation that is already handed off: the
  classifier returns at its first test, and the reason of the earlier handoff stays.
\<close>

theorem image_after_handoff_counterexample:
  "str_in image_marker ''[IMAGE_SENT]''
   \<and> invoke sample_services handed_off_conversation ''u'' ''[IMAGE_SENT]''
     = Inr ([N_classify_intent],
            handed_off_conversation
              \<lparr>messages := messages handed_off_conversation @ [HumanMessage ''[IMAGE_SENT]''],
               user_id := ''u''\<rparr>)
   \<and> handoff_reason handed_off_conversation = Some ''products_shown''"
proof -
  let ?s = "handed_off_conversation
              \<lparr>messages := messages handed_off_conversation @ [HumanMessage ''[IMAGE_SENT]''],
               user_id := ''u''\<rparr>"
  have i: "str_in image_marker ''[IMAGE_SENT]''"
    by code_simp
  have h: "needs_human_handoff ?s"
    by (simp add: handed_off_conversation_def new_conversation_def)
  have c: "intent_classifier_node (llm sample_services) ?s = Inr ?s"
    using h by (rule classifier_silent_when_handed_off)
  have p: "post_intent_router ?s"
    using h by (simp add: post_intent_router_def)
  have "run_graph sample_services ?s = Inr ([N_classify_intent], ?s)"
    using entry_router_image [OF i] c p by (rule run_graph_classifier_ends)
  moreover have "handoff_reason handed_off_conversation = Some ''products_shown''"
    by (simp add: handed_off_conversation_def new_conversation_def)
  ultimately show ?thesis
    using i by (simp add: invoke_def)
qed

subsection \<open>C10: the quick price query is a substring test\<close>

lemma pp_is_quick_query:
  "len message \<le> 20 \<Longrightarrow> str_in ''pp'' (strip (lower message)) \<Longrightarrow> is_quick_query message"
  by (simp add: is_quick_query_def quick_price_queries_def)

text \<open>
  C10. In a conversation that is not handed off, a message of at most 20 characters
  without the image marker whose lower-cased text contains \<open>pp\<close> anywhere runs the
  classifier alone and ends in the handoff stage with the reason \<open>quick_price_query\<close>;
  the extraction node does not run and the requirements stay as they were. The message
  \<open>need 50 red apples\<close> is such a message.
\<close>

theorem pp_substring_hands_off:
  assumes "\<not> needs_human_handoff s" and "\<not> str_in image_marker message"
    and "len message \<le> 20" and "str_in ''pp'' (strip (lower message))"
  shows "\<exists>s'. invoke sv s uid message = Inr ([N_classify_intent], s')
           \<and> current_stage s' = Some Handoff
           \<and> needs_human_handoff s'
           \<and> handoff_reason s' = Some ''quick_price_query''
           \<and> requirements s' = requirements s
           \<and> messages s' = messages s @ [HumanMessage message]"
proof -
  let ?s = "s\<lparr>messages := messages s @ [HumanMessage message], user_id := uid\<rparr>"
  have q: "is_quick_query message"
    using assms(3,4) by (rule pp_is_quick_query)
  have n: "\<not> needs_human_handoff ?s" using assms(1) by simp
  have u: "user_messages ?s \<noteq> []" by (simp add: user_messages_append)
  have i: "\<not> str_in image_marker (last (user_messages ?s))"
    using assms(2) by (simp add: user_messages_append)
  have l: "is_quick_query (last (user_messages ?s))"
    using q by (simp add: user_messages_append)
  have c: "intent_classifier_node (llm sv) ?s = Inr (hand_off ''quick_price_query'' ?s)"
    using n u i l by (rule classifier_quick_query)
  have "run_graph sv ?s = Inr ([N_classify_intent], hand_off ''quick_price_query'' ?s)"
    using entry_router_quick_query [OF q] c post_intent_router_hand_off
    by (rule run_graph_classifier_ends)
  then have "invoke sv s uid message
             = Inr ([N_classify_intent], hand_off ''quick_price_query'' ?s)"
    by (simp add: invoke_def)
  then show ?thesis
    by (simp add: hand_off_def)
qed

theorem pp_substring_hands_off_witness:
  "len ''need 50 red apples'' = 18
   \<and> str_in ''pp'' (strip (lower ''need 50 red apples''))
   \<and> (\<exists>s'. invoke sample_services new_conversation ''u'' ''need 50 red apples''
              = Inr ([N_classify_intent], s')
          \<and> current_stage s' = Some Handoff
          \<and> needs_human_handoff s'
          \<and> handoff_reason s' = Some ''quick_price_query''
          \<and> requirements s' = requirements new_conversation
          \<and> messages s' = messages new_conversation @ [HumanMessage ''need 50 red apples''])"
proof -
  have n: "\<not> needs_human_handoff new_conversation"
    by (simp add: new_conversation_def)
  have i: "\<not> str_in image_marker ''need 50 red apples''"
    by code_simp
  have k: "len ''need 50 red apples'' = 18"
    by code_simp
  then have k': "len ''need 50 red apples'' \<le> 20"
    by simp
  have p: "str_in ''pp'' (strip (lower ''need 50 red apples''))"
    by code_simp
  from pp_substring_hands_off [OF n i k' p, of sample_services "''u''"] k p show ?thesis
    by blast
qed

end
